theory Spec2Isabelle
  imports Main "HOL-Library.Word" "HOL-Library.Signed_Division"
begin

unbundle bit_operations_syntax

section \<open>BlueALSA SCO transport engine (sco.c)\<close>

text \<open>
  An embedding of \<^verbatim>\<open>src/sco.c\<close>: the timer helpers, the body of the
  connection dispatcher's accept loop and one iteration of the transport I/O
  loop \<^verbatim>\<open>sco_thread\<close>.  Everything the loop obtains from outside (system
  calls, the PCM FIFO helpers, the codec) is an explicit input of the
  iteration; everything it does to the outside is appended to a list of calls.
\<close>

subsection \<open>C integers\<close>

text \<open>
  \<^verbatim>\<open>long\<close>, \<^verbatim>\<open>time_t\<close>, \<^verbatim>\<open>ssize_t\<close> and \<^verbatim>\<open>size_t\<close> are 64 bits wide (LP64
  Linux).  Signed values are read with \<open>sint\<close>; \<^verbatim>\<open>/\<close> and \<^verbatim>\<open>%\<close> on signed
  operands truncate towards zero (\<open>sdiv\<close>, \<open>smod\<close> on \<open>int\<close>), the product
  is taken modulo \<open>2 ^ 64\<close>.
\<close>

type_synonym long = "64 word"
type_synonym size_t = "64 word"

definition long_div :: "long \<Rightarrow> long \<Rightarrow> long" where
  "long_div a b = word_of_int (sint a sdiv sint b)"

definition long_rem :: "long \<Rightarrow> long \<Rightarrow> long" where
  "long_rem a b = word_of_int (sint a smod sint b)"

text \<open>C defines the product of two \<^verbatim>\<open>long\<close> values only when it fits a
  \<^verbatim>\<open>long\<close>; a signed product that overflows is undefined behaviour.\<close>

definition long_mul_defined :: "long \<Rightarrow> long \<Rightarrow> bool" where
  "long_mul_defined a b =
     (- 9223372036854775808 \<le> sint a * sint b \<and> sint a * sint b \<le> 9223372036854775807)"

subsection \<open>Timer helpers\<close>

record timespec =
  tv_sec :: long
  tv_nsec :: long

record itimerspec =
  it_interval :: timespec
  it_value :: timespec

definition SCO_DRAIN_TIMEOUT :: long where "SCO_DRAIN_TIMEOUT = 250"
definition SCO_LINGER_TIMEOUT :: long where "SCO_LINGER_TIMEOUT = 1000"
definition SCO_CLOSE_TIMEOUT :: long where "SCO_CLOSE_TIMEOUT = 600"

text \<open>The \<^verbatim>\<open>struct itimerspec\<close> that \<^verbatim>\<open>sco_start_timer\<close> hands to
  \<^verbatim>\<open>timerfd_settime\<close>.\<close>

definition sco_start_timer_timeout :: "long \<Rightarrow> itimerspec" where
  "sco_start_timer_timeout msec =
     \<lparr> it_interval = \<lparr> tv_sec = 0, tv_nsec = 0 \<rparr>,
       it_value = \<lparr> tv_sec = long_div msec 1000,
                    tv_nsec = long_rem (msec * 1000000) 1000000000 \<rparr> \<rparr>"

text \<open>The all-zero \<^verbatim>\<open>struct itimerspec\<close> of \<^verbatim>\<open>sco_cancel_timer\<close>, which
  disarms the timer.\<close>

definition sco_cancel_timer_timeout :: itimerspec where
  "sco_cancel_timer_timeout =
     \<lparr> it_interval = \<lparr> tv_sec = 0, tv_nsec = 0 \<rparr>,
       it_value = \<lparr> tv_sec = 0, tv_nsec = 0 \<rparr> \<rparr>"

subsection \<open>Codecs and signals\<close>

text \<open>\<^verbatim>\<open>hfp.h\<close> is not among the sources.  The code distinguishes
  \<^verbatim>\<open>HFP_CODEC_CVSD\<close>, \<^verbatim>\<open>HFP_CODEC_MSBC\<close> and, through \<^verbatim>\<open>default\<close>, every
  other value of \<^verbatim>\<open>t->type.codec\<close>.\<close>

datatype hfp_codec = HFP_CODEC_UNDEFINED | HFP_CODEC_CVSD | HFP_CODEC_MSBC

text \<open>The signals \<^verbatim>\<open>sco_thread\<close> has a \<^verbatim>\<open>case\<close> for, and one more value
  standing for every enumerator that reaches \<^verbatim>\<open>default\<close>.\<close>

datatype ba_transport_signal =
    BA_TRANSPORT_SIGNAL_PING
  | BA_TRANSPORT_SIGNAL_PCM_OPEN
  | BA_TRANSPORT_SIGNAL_PCM_RESUME
  | BA_TRANSPORT_SIGNAL_PCM_CLOSE
  | BA_TRANSPORT_SIGNAL_PCM_SYNC
  | BA_TRANSPORT_SIGNAL_PCM_DROP
  | BA_TRANSPORT_SIGNAL_OTHER

subsection \<open>The dispatcher's accept loop\<close>

text \<open>What one pass of the accept loop gets from its environment.\<close>

record accept_env =
  accept_ret :: int                     \<comment> \<open>\<^verbatim>\<open>accept\<close>: the new descriptor, or -1\<close>
  device_found :: bool                  \<comment> \<open>\<^verbatim>\<open>ba_device_lookup\<close> is not \<^verbatim>\<open>NULL\<close>\<close>
  transport_codec :: "hfp_codec option" \<comment> \<open>\<^verbatim>\<open>ba_transport_lookup\<close>: \<^verbatim>\<open>NULL\<close>, or \<^verbatim>\<open>t->type.codec\<close>\<close>
  setsockopt_ret :: int                 \<comment> \<open>\<^verbatim>\<open>setsockopt(fd, SOL_BLUETOOTH, BT_VOICE, ...)\<close>\<close>
  read_ret :: int                       \<comment> \<open>\<^verbatim>\<open>read(fd, &voice, 1)\<close>\<close>

datatype dispatcher_call =
    Setsockopt_BT_VOICE_TRANSPARENT int
  | Read_1_byte int
  | Sco_refresh_bt int
  | Send_signal_spk_pcm ba_transport_signal
  | Send_signal_mic_pcm ba_transport_signal
  | Ba_device_unref
  | Ba_transport_unref
  | Close_fd int
  | Dispatcher_error string

text \<open>The \<^verbatim>\<open>cleanup:\<close> label; \<open>d\<close> and \<open>t\<close> say whether the pointers are set.\<close>

definition dispatcher_cleanup :: "bool \<Rightarrow> bool \<Rightarrow> int \<Rightarrow> dispatcher_call list" where
  "dispatcher_cleanup d t fd =
     (if d then [Ba_device_unref] else []) @
     (if t then [Ba_transport_unref] else []) @
     (if fd \<noteq> -1 then [Close_fd fd] else [])"

text \<open>The loop body from \<^verbatim>\<open>accept\<close> to \<^verbatim>\<open>cleanup:\<close>, as the list of calls
  it makes.  The first argument is the build option \<^verbatim>\<open>ENABLE_MSBC\<close>.\<close>

definition sco_dispatcher_accept :: "bool \<Rightarrow> accept_env \<Rightarrow> dispatcher_call list" where
  "sco_dispatcher_accept enable_msbc e =
     (let fd = accept_ret e in
      if fd = -1 then
        Dispatcher_error ''Couldn't accept incoming SCO link'' # dispatcher_cleanup False False fd
      else if \<not> device_found e then
        Dispatcher_error ''Couldn't lookup device'' # dispatcher_cleanup False False fd
      else case transport_codec e of
        None \<Rightarrow> Dispatcher_error ''Couldn't lookup transport'' # dispatcher_cleanup True False fd
      | Some codec \<Rightarrow>
          if enable_msbc \<and> codec = HFP_CODEC_MSBC \<and> setsockopt_ret e = -1 then
            [Setsockopt_BT_VOICE_TRANSPARENT fd,
             Dispatcher_error ''Couldn't setup transparent voice''] @
            dispatcher_cleanup True True fd
          else
            (if enable_msbc \<and> codec = HFP_CODEC_MSBC
             then [Setsockopt_BT_VOICE_TRANSPARENT fd] else []) @
            (if enable_msbc \<and> read_ret e = -1 then
               [Read_1_byte fd, Dispatcher_error ''Couldn't authorize SCO connection''] @
               dispatcher_cleanup True True fd
             else
               (if enable_msbc then [Read_1_byte fd] else []) @
               [Sco_refresh_bt fd,
                Send_signal_spk_pcm BA_TRANSPORT_SIGNAL_PING,
                Send_signal_mic_pcm BA_TRANSPORT_SIGNAL_PING] @
               dispatcher_cleanup True True (-1)))"

subsection \<open>errno, poll flags and results of calls\<close>

definition EINTR :: int where "EINTR = 4"
definition EAGAIN :: int where "EAGAIN = 11"
definition ECONNABORTED :: int where "ECONNABORTED = 103"
definition ECONNRESET :: int where "ECONNRESET = 104"

definition POLLIN :: "16 word" where "POLLIN = 1"
definition POLLOUT :: "16 word" where "POLLOUT = 4"
definition POLLERR :: "16 word" where "POLLERR = 8"
definition POLLHUP :: "16 word" where "POLLHUP = 16"

record pollfd =
  fd :: int
  events :: "16 word"
  revents :: "16 word"

text \<open>What a call into the kernel or into the PCM helpers answers: the value
  returned and the \<^verbatim>\<open>errno\<close> it sets when it fails.\<close>

record syscall =
  ret :: int
  err :: int

text \<open>\<^verbatim>\<open>errno\<close> after \<^verbatim>\<open>errno = 0; len = read(...)\<close>: a call that does not
  fail leaves the zero in place.\<close>

definition errno_after :: "syscall \<Rightarrow> int" where
  "errno_after r = (if ret r < 0 then err r else 0)"

subsection \<open>Flip-flop buffer\<close>

text \<open>Modelled from the spec: \<^verbatim>\<open>shared/ffb.h\<close> is not among the sources.
  Section 4.1: a buffer of capacity \<open>C\<close> with cursors \<open>head \<le> tail \<le> C\<close>;
  \<open>len_in = C - tail\<close>, \<open>len_out = tail - head\<close>, \<open>seek n\<close> advances the tail,
  \<open>shift n\<close> advances the head and, if the head is above zero and less than
  some threshold is left to read, moves the content down so that the head is
  zero; \<open>rewind\<close> resets both cursors.  The threshold is left open by the spec
  and is a field of the buffer here.  Cursors count elements of \<open>elsize\<close>
  bytes (\<^verbatim>\<open>uint8_t\<close> or \<^verbatim>\<open>int16_t\<close>); the \<^verbatim>\<open>ffb_blen\<close> lengths are in bytes.\<close>

record ffb =
  capacity :: nat
  elsize :: nat
  threshold :: nat
  head :: nat
  tail :: nat

definition ffb_len_in :: "ffb \<Rightarrow> nat" where
  "ffb_len_in b = capacity b - tail b"

definition ffb_len_out :: "ffb \<Rightarrow> nat" where
  "ffb_len_out b = tail b - head b"

definition ffb_blen_in :: "ffb \<Rightarrow> nat" where
  "ffb_blen_in b = ffb_len_in b * elsize b"

definition ffb_blen_out :: "ffb \<Rightarrow> nat" where
  "ffb_blen_out b = ffb_len_out b * elsize b"

definition ffb_seek :: "ffb \<Rightarrow> nat \<Rightarrow> ffb" where
  "ffb_seek b n = b\<lparr>tail := tail b + n\<rparr>"

definition ffb_shift :: "ffb \<Rightarrow> nat \<Rightarrow> ffb" where
  "ffb_shift b n =
     (let b' = b\<lparr>head := head b + n\<rparr> in
      if 0 < head b' \<and> ffb_len_out b' < threshold b'
      then b'\<lparr>head := 0, tail := ffb_len_out b'\<rparr>
      else b')"

definition ffb_rewind :: "ffb \<Rightarrow> ffb" where
  "ffb_rewind b = b\<lparr>head := 0, tail := 0\<rparr>"

text \<open>The zero-initialised buffer, and \<^verbatim>\<open>ffb_init_uint8_t(&b, n)\<close> on it.\<close>

definition ffb_zero :: "nat \<Rightarrow> ffb" where
  "ffb_zero thr = \<lparr> capacity = 0, elsize = 0, threshold = thr, head = 0, tail = 0 \<rparr>"

definition ffb_init_uint8_t :: "nat \<Rightarrow> nat \<Rightarrow> ffb" where
  "ffb_init_uint8_t thr n =
     \<lparr> capacity = n, elsize = 1, threshold = thr, head = 0, tail = 0 \<rparr>"

subsection \<open>mSBC pipeline\<close>

record esco_msbc =
  initialized :: bool
  enc_pcm :: ffb
  enc_data :: ffb
  dec_data :: ffb
  dec_pcm :: ffb
  enc_frames :: nat

definition MSBC_CODESAMPLES :: nat where "MSBC_CODESAMPLES = 120"

text \<open>Size of one mSBC radio frame (H2 header, payload, padding).\<close>

definition MSBC_FRAMELEN :: nat where "MSBC_FRAMELEN = 60"

text \<open>Modelled from the spec: \<^verbatim>\<open>msbc.c\<close> is not among the sources.
  Section 4.2: \<open>init()\<close> allocates the encoder, the decoder and the four
  buffers.  A call that returns 0 leaves the pipeline initialized with empty
  buffers; their sizes are chosen in \<^verbatim>\<open>msbc.c\<close> and come in as \<open>fresh\<close>.  A
  failed call leaves the pipeline as it was.\<close>

definition msbc_init :: "esco_msbc \<Rightarrow> int \<Rightarrow> esco_msbc \<Rightarrow> esco_msbc" where
  "msbc_init fresh r m =
     (if r = 0 then
        \<lparr> initialized = True,
          enc_pcm = ffb_rewind (enc_pcm fresh), enc_data = ffb_rewind (enc_data fresh),
          dec_data = ffb_rewind (dec_data fresh), dec_pcm = ffb_rewind (dec_pcm fresh),
          enc_frames = 0 \<rparr>
      else m)"

text \<open>Modelled from the spec: \<open>encode()\<close>, section 4.2: while \<open>enc_pcm\<close> holds
  at least 120 samples and \<open>enc_data\<close> has at least 60 bytes free, consume 120
  samples, produce one frame and increment \<open>enc_frames\<close>.\<close>

function msbc_encode :: "esco_msbc \<Rightarrow> esco_msbc" where
  "msbc_encode m =
     (if MSBC_CODESAMPLES \<le> ffb_len_out (enc_pcm m) \<and> MSBC_FRAMELEN \<le> ffb_blen_in (enc_data m)
      then msbc_encode (m\<lparr> enc_pcm := ffb_shift (enc_pcm m) MSBC_CODESAMPLES,
                            enc_data := ffb_seek (enc_data m) MSBC_FRAMELEN,
                            enc_frames := enc_frames m + 1 \<rparr>)
      else m)"
  by pat_completeness auto
termination
  by (relation "measure (\<lambda>m. ffb_len_out (enc_pcm m))")
     (auto simp: ffb_shift_def ffb_len_out_def MSBC_CODESAMPLES_def Let_def)

text \<open>Modelled from the spec: \<open>decode()\<close>, section 4.2: while \<open>dec_data\<close> holds
  at least 60 bytes, decode one frame into 120 samples written to \<open>dec_pcm\<close>.\<close>

function msbc_decode :: "esco_msbc \<Rightarrow> esco_msbc" where
  "msbc_decode m =
     (if MSBC_FRAMELEN \<le> ffb_len_out (dec_data m)
      then msbc_decode (m\<lparr> dec_data := ffb_shift (dec_data m) MSBC_FRAMELEN,
                            dec_pcm := ffb_seek (dec_pcm m) MSBC_CODESAMPLES \<rparr>)
      else m)"
  by pat_completeness auto
termination
  by (relation "measure (\<lambda>m. ffb_len_out (dec_data m))")
     (auto simp: ffb_shift_def ffb_len_out_def MSBC_FRAMELEN_def Let_def)

declare msbc_encode.simps [simp del] msbc_decode.simps [simp del]

subsection \<open>State of the I/O thread\<close>

datatype ba_transport_sco_state =
    BA_TRANSPORT_SCO_STATE_IDLE
  | BA_TRANSPORT_SCO_STATE_RUNNING
  | BA_TRANSPORT_SCO_STATE_DRAINING
  | BA_TRANSPORT_SCO_STATE_LINGER
  | BA_TRANSPORT_SCO_STATE_CLOSING

text \<open>Calls that leave the thread, in the order they are made.  \<^verbatim>\<open>debug\<close>
  output is left out.\<close>

datatype sco_call =
    Call_release                          \<comment> \<open>\<^verbatim>\<open>t->release(t)\<close> in \<^verbatim>\<open>sco_release_bt\<close>\<close>
  | Call_timerfd_settime itimerspec
  | Call_cond_signal_synced               \<comment> \<open>\<^verbatim>\<open>pthread_cond_signal(&t->sco.spk_pcm.synced)\<close>\<close>
  | Call_pcm_flush_spk
  | Call_pcm_release_spk
  | Call_send_signal ba_transport_signal  \<comment> \<open>\<^verbatim>\<open>ba_transport_thread_send_signal(th, ...)\<close>\<close>
  | Call_msbc_init
  | Call_msbc_encode
  | Call_msbc_decode
  | Call_asrsync_init nat
  | Call_asrsync_sync nat
  | Call_error string
  | Call_warn string

text \<open>The fields of \<^verbatim>\<open>struct ba_transport\<close> and of the thread that the loop
  touches, the loop's local variables, and the calls made so far.  \<open>timer\<close>
  is the value last set on \<^verbatim>\<open>t->sco.timer_fd\<close>; \<open>pipe\<close> holds the signals
  waiting in the thread's pipe, oldest first.\<close>

record sco_thread_state =
  bt_fd :: int
  mtu_read :: nat
  mtu_write :: nat
  profile :: "32 word"
  codec :: hfp_codec
  spk_pcm_fd :: int
  mic_pcm_fd :: int
  spk_pcm_sampling :: nat
  spk_pcm_delay :: nat
  mic_pcm_delay :: nat
  sco_state :: ba_transport_sco_state
  timer :: itimerspec
  pipe :: "ba_transport_signal list"
  bt_in :: ffb
  bt_out :: ffb
  msbc :: esco_msbc
  initialize_msbc :: bool
  asrs_frames :: nat
  pfds :: "nat \<Rightarrow> pollfd"
  calls :: "sco_call list"

text \<open>Build-time parameters that the sources leave to other files: the option
  \<^verbatim>\<open>ENABLE_MSBC\<close>, the profile mask of the audio-gateway roles, and the
  buffers a fresh mSBC pipeline gets.\<close>

record sco_build =
  ENABLE_MSBC :: bool
  BA_TRANSPORT_PROFILE_MASK_AG :: "32 word"
  msbc_fresh :: esco_msbc

text \<open>What one iteration gets from its environment.\<close>

record sco_env =
  msbc_init_ret :: int
  msbc_encode_ret :: int
  msbc_decode_ret :: int
  poll_ret :: syscall
  poll_revents :: "nat \<Rightarrow> 16 word"
  timer_read :: syscall
  sco_read :: "syscall list"       \<comment> \<open>answers to \<^verbatim>\<open>read(pfds[1].fd, ...)\<close>, one per attempt\<close>
  sco_write :: "syscall list"      \<comment> \<open>answers to \<^verbatim>\<open>write(pfds[2].fd, ...)\<close>, one per attempt\<close>
  pcm_read :: syscall              \<comment> \<open>\<^verbatim>\<open>ba_transport_pcm_read\<close>\<close>
  pcm_write :: syscall             \<comment> \<open>\<^verbatim>\<open>ba_transport_pcm_write\<close>\<close>
  busy_usec :: nat                 \<comment> \<open>\<^verbatim>\<open>asrsync_get_busy_usec\<close>\<close>

text \<open>How a block of the loop body ends: it falls through to the next
  statement, it executes \<^verbatim>\<open>continue\<close>, it jumps to \<^verbatim>\<open>fail\<close> (the thread
  function returns), or it never returns because the environment has no
  answer left for a call that is repeated or that blocks.\<close>

datatype 'a flow = Next 'a | Continue 'a | Fail 'a | Blocked

definition then_do :: "'a flow \<Rightarrow> ('a \<Rightarrow> 'a flow) \<Rightarrow> 'a flow" where
  "then_do c f = (case c of Next s \<Rightarrow> f s | Continue s \<Rightarrow> Continue s
                    | Fail s \<Rightarrow> Fail s | Blocked \<Rightarrow> Blocked)"

definition flow_state :: "'a flow \<Rightarrow> 'a option" where
  "flow_state c = (case c of Next s \<Rightarrow> Some s | Continue s \<Rightarrow> Some s
                     | Fail s \<Rightarrow> Some s | Blocked \<Rightarrow> None)"

definition call :: "sco_call \<Rightarrow> sco_thread_state \<Rightarrow> sco_thread_state" where
  "call c s = s\<lparr>calls := calls s @ [c]\<rparr>"

definition error :: "string \<Rightarrow> sco_thread_state \<Rightarrow> sco_thread_state" where
  "error msg s = call (Call_error msg) s"

definition warn :: "string \<Rightarrow> sco_thread_state \<Rightarrow> sco_thread_state" where
  "warn msg s = call (Call_warn msg) s"

text \<open>Modelled from the spec: the transport's \<^verbatim>\<open>release\<close> hook is not among
  the sources.  Data model, invariant 1: \<open>release()\<close> clears \<open>bt_fd\<close> to -1.\<close>

definition sco_release_bt :: "sco_thread_state \<Rightarrow> sco_thread_state" where
  "sco_release_bt s = call Call_release (s\<lparr>bt_fd := -1\<rparr>)"

definition sco_start_timer :: "long \<Rightarrow> sco_thread_state \<Rightarrow> sco_thread_state" where
  "sco_start_timer msec s =
     call (Call_timerfd_settime (sco_start_timer_timeout msec))
          (s\<lparr>timer := sco_start_timer_timeout msec\<rparr>)"

definition sco_cancel_timer :: "sco_thread_state \<Rightarrow> sco_thread_state" where
  "sco_cancel_timer s =
     call (Call_timerfd_settime sco_cancel_timer_timeout)
          (s\<lparr>timer := sco_cancel_timer_timeout\<rparr>)"

definition sco_pcm_is_closed :: "int \<Rightarrow> bool" where
  "sco_pcm_is_closed pcm_fd = (pcm_fd = -1)"

text \<open>Modelled from the spec: \<^verbatim>\<open>ba-transport.c\<close> and \<^verbatim>\<open>rt.c\<close> are not among
  the sources.  A signal sent to the thread is appended to its pipe (FIFO);
  releasing a PCM leaves its descriptor at -1; \<^verbatim>\<open>asrsync_init\<close> starts the
  frame counter at zero and \<^verbatim>\<open>asrsync_sync\<close> advances it.\<close>

definition ba_transport_thread_send_signal ::
  "ba_transport_signal \<Rightarrow> sco_thread_state \<Rightarrow> sco_thread_state" where
  "ba_transport_thread_send_signal sig s =
     call (Call_send_signal sig) (s\<lparr>pipe := pipe s @ [sig]\<rparr>)"

definition ba_transport_pcm_release_spk :: "sco_thread_state \<Rightarrow> sco_thread_state" where
  "ba_transport_pcm_release_spk s = call Call_pcm_release_spk (s\<lparr>spk_pcm_fd := -1\<rparr>)"

definition ba_transport_pcm_flush_spk :: "sco_thread_state \<Rightarrow> sco_thread_state" where
  "ba_transport_pcm_flush_spk s = call Call_pcm_flush_spk s"

definition asrsync_init :: "nat \<Rightarrow> sco_thread_state \<Rightarrow> sco_thread_state" where
  "asrsync_init rate s = call (Call_asrsync_init rate) (s\<lparr>asrs_frames := 0\<rparr>)"

definition asrsync_sync :: "nat \<Rightarrow> sco_thread_state \<Rightarrow> sco_thread_state" where
  "asrsync_sync frames s =
     call (Call_asrsync_sync frames) (s\<lparr>asrs_frames := asrs_frames s + frames\<rparr>)"

text \<open>\<^verbatim>\<open>t->type.profile & BA_TRANSPORT_PROFILE_MASK_AG\<close>\<close>

definition profile_is_ag :: "sco_build \<Rightarrow> sco_thread_state \<Rightarrow> bool" where
  "profile_is_ag b s = (profile s AND BA_TRANSPORT_PROFILE_MASK_AG b \<noteq> 0)"

text \<open>Which arm of \<^verbatim>\<open>switch (codec)\<close> runs: the mSBC arm exists only with
  \<^verbatim>\<open>ENABLE_MSBC\<close>; every other value takes the CVSD arm.\<close>

definition msbc_arm :: "sco_build \<Rightarrow> hfp_codec \<Rightarrow> bool" where
  "msbc_arm b c = (ENABLE_MSBC b \<and> c = HFP_CODEC_MSBC)"

definition set_pfd :: "nat \<Rightarrow> int \<Rightarrow> sco_thread_state \<Rightarrow> sco_thread_state" where
  "set_pfd i v s = s\<lparr>pfds := (pfds s)(i := (pfds s i)\<lparr>fd := v\<rparr>)\<rparr>"

subsection \<open>One iteration of \<^verbatim>\<open>sco_thread\<close>: choosing the descriptors to poll\<close>

text \<open>The CVSD arm (also \<^verbatim>\<open>default\<close>) of the first \<^verbatim>\<open>switch (codec)\<close>.\<close>

definition sco_pfds_cvsd :: "sco_thread_state \<Rightarrow> sco_thread_state" where
  "sco_pfds_cvsd s0 =
     (let s = (if mtu_read s0 \<le> ffb_len_in (bt_in s0) then set_pfd 1 (bt_fd s0) s0 else s0);
          s = (if mtu_write s \<le> ffb_len_out (bt_out s) then set_pfd 2 (bt_fd s) s else s);
          s = (if bt_fd s \<noteq> -1 \<and> mtu_write s \<le> ffb_len_in (bt_out s)
               then set_pfd 3 (spk_pcm_fd s) s else s);
          s = (if 0 < ffb_len_out (bt_in s) then set_pfd 4 (mic_pcm_fd s) s else s)
      in s)"

text \<open>The mSBC arm: first both codec calls, whose return values only decide
  whether a warning is printed, then the descriptors and the mark for
  reinitialisation.\<close>

definition sco_msbc_encode_decode :: "sco_env \<Rightarrow> sco_thread_state \<Rightarrow> sco_thread_state" where
  "sco_msbc_encode_decode e s0 =
     (let s = call Call_msbc_encode (s0\<lparr>msbc := msbc_encode (msbc s0)\<rparr>);
          s = (if msbc_encode_ret e = -1 then warn ''Couldn't encode mSBC'' s else s);
          s = call Call_msbc_decode (s\<lparr>msbc := msbc_decode (msbc s)\<rparr>);
          s = (if msbc_decode_ret e = -1 then warn ''Couldn't decode mSBC'' s else s)
      in s)"

definition sco_pfds_msbc :: "sco_thread_state \<Rightarrow> sco_thread_state" where
  "sco_pfds_msbc s0 =
     (let s = (if mtu_read s0 \<le> ffb_blen_in (dec_data (msbc s0)) then set_pfd 1 (bt_fd s0) s0 else s0);
          s = (if mtu_write s \<le> ffb_blen_out (enc_data (msbc s)) then set_pfd 2 (bt_fd s) s else s);
          s = (if bt_fd s \<noteq> -1 \<and> mtu_write s \<le> ffb_blen_in (enc_pcm (msbc s))
               then set_pfd 3 (spk_pcm_fd s) s else s);
          s = (if 0 < ffb_blen_out (dec_pcm (msbc s)) then set_pfd 4 (mic_pcm_fd s) s else s);
          s = (if (spk_pcm_fd s = -1 \<and> mic_pcm_fd s = -1) \<or> bt_fd s = -1
               then s\<lparr>initialize_msbc := True\<rparr> else s)
      in s)"

text \<open>\<^verbatim>\<open>pfds[1].fd = pfds[2].fd = -1; pfds[3].fd = pfds[4].fd = -1;\<close>\<close>

definition sco_pfds_reset :: "sco_thread_state \<Rightarrow> sco_thread_state" where
  "sco_pfds_reset s = set_pfd 4 (-1) (set_pfd 3 (-1) (set_pfd 1 (-1) (set_pfd 2 (-1) s)))"

text \<open>From the top of the loop body to the call of \<^verbatim>\<open>poll\<close>; \<open>c\<close> is the
  codec read at the top.\<close>

definition sco_thread_setup ::
  "sco_build \<Rightarrow> sco_env \<Rightarrow> hfp_codec \<Rightarrow> sco_thread_state \<Rightarrow> sco_thread_state flow" where
  "sco_thread_setup b e c s0 =
     (let s = sco_pfds_reset s0 in
      then_do
        (if ENABLE_MSBC b \<and> initialize_msbc s \<and> c = HFP_CODEC_MSBC then
           (let s = call Call_msbc_init
                      (s\<lparr>initialize_msbc := False,
                         msbc := msbc_init (msbc_fresh b) (msbc_init_ret e) (msbc s)\<rparr>)
            in if msbc_init_ret e \<noteq> 0
               then Fail (error ''Couldn't initialize mSBC codec'' s)
               else Next s)
         else Next s)
        (\<lambda>s. Next (if msbc_arm b c then sco_pfds_msbc (sco_msbc_encode_decode e s)
                   else sco_pfds_cvsd s)))"

text \<open>\<^verbatim>\<open>poll(pfds, 6, -1)\<close>.  With an infinite timeout \<^verbatim>\<open>poll\<close> returns a
  positive count or fails and sets \<^verbatim>\<open>errno\<close>.  It ignores an entry whose
  descriptor is negative and returns zero \<^verbatim>\<open>revents\<close> for it.\<close>

definition sco_thread_poll :: "sco_env \<Rightarrow> sco_thread_state \<Rightarrow> sco_thread_state flow" where
  "sco_thread_poll e s =
     (if ret (poll_ret e) \<le> 0 then
        (if err (poll_ret e) = EINTR then Continue s
         else Fail (error ''SCO poll error'' s))
      else Next (s\<lparr>pfds := (\<lambda>i. (pfds s i)
                   \<lparr>revents := (if fd (pfds s i) < 0 then 0 else poll_revents e i)\<rparr>)\<rparr>))"

subsection \<open>Signals and the timer\<close>

text \<open>The \<^verbatim>\<open>switch\<close> over the received signal.\<close>

definition sco_signal_action ::
  "sco_build \<Rightarrow> ba_transport_signal \<Rightarrow> sco_thread_state \<Rightarrow> sco_thread_state flow" where
  "sco_signal_action b sig s =
     (case sig of
        BA_TRANSPORT_SIGNAL_PING \<Rightarrow> Continue s
      | BA_TRANSPORT_SIGNAL_PCM_OPEN \<Rightarrow>
          Continue ((sco_cancel_timer s)
            \<lparr>sco_state := BA_TRANSPORT_SCO_STATE_RUNNING, asrs_frames := 0\<rparr>)
      | BA_TRANSPORT_SIGNAL_PCM_RESUME \<Rightarrow>
          Continue ((sco_cancel_timer s)
            \<lparr>sco_state := BA_TRANSPORT_SCO_STATE_RUNNING, asrs_frames := 0\<rparr>)
      | BA_TRANSPORT_SIGNAL_PCM_CLOSE \<Rightarrow>
          Continue
            (if profile_is_ag b s \<and> sco_pcm_is_closed (spk_pcm_fd s)
                \<and> sco_pcm_is_closed (mic_pcm_fd s)
                \<and> sco_state s \<noteq> BA_TRANSPORT_SCO_STATE_LINGER
             then sco_start_timer SCO_LINGER_TIMEOUT
                    (s\<lparr>sco_state := BA_TRANSPORT_SCO_STATE_LINGER\<rparr>)
             else s)
      | BA_TRANSPORT_SIGNAL_PCM_SYNC \<Rightarrow>
          Next (sco_start_timer SCO_DRAIN_TIMEOUT
                  (s\<lparr>sco_state := BA_TRANSPORT_SCO_STATE_DRAINING\<rparr>))
      | BA_TRANSPORT_SIGNAL_PCM_DROP \<Rightarrow>
          Continue (ba_transport_pcm_flush_spk (sco_cancel_timer s))
      | BA_TRANSPORT_SIGNAL_OTHER \<Rightarrow> Next s)"

text \<open>\<^verbatim>\<open>if (pfds[0].revents & POLLIN)\<close>.  Modelled from the spec:
  \<^verbatim>\<open>ba_transport_thread_recv_signal\<close> is not among the sources; it takes the
  oldest signal from the pipe, and waits when there is none.\<close>

definition sco_thread_signal ::
  "sco_build \<Rightarrow> sco_thread_state \<Rightarrow> sco_thread_state flow" where
  "sco_thread_signal b s =
     (if revents (pfds s 0) AND POLLIN \<noteq> 0 then
        (case pipe s of
           [] \<Rightarrow> Blocked
         | sig # rest \<Rightarrow> sco_signal_action b sig (s\<lparr>pipe := rest\<rparr>))
      else Next s)"

text \<open>The \<^verbatim>\<open>switch (t->sco.state)\<close> after the expiration count was read.\<close>

definition sco_timer_action :: "sco_build \<Rightarrow> sco_thread_state \<Rightarrow> sco_thread_state flow" where
  "sco_timer_action b s =
     (case sco_state s of
        BA_TRANSPORT_SCO_STATE_DRAINING \<Rightarrow>
          Continue (call Call_cond_signal_synced
                      (s\<lparr>sco_state := BA_TRANSPORT_SCO_STATE_RUNNING\<rparr>))
      | BA_TRANSPORT_SCO_STATE_LINGER \<Rightarrow>
          Continue
            (if profile_is_ag b s \<and> sco_pcm_is_closed (spk_pcm_fd s)
                \<and> sco_pcm_is_closed (mic_pcm_fd s)
             then sco_start_timer SCO_CLOSE_TIMEOUT
                    (sco_release_bt (s\<lparr>sco_state := BA_TRANSPORT_SCO_STATE_CLOSING\<rparr>))
             else s)
      | BA_TRANSPORT_SCO_STATE_CLOSING \<Rightarrow>
          Next (s\<lparr>sco_state := BA_TRANSPORT_SCO_STATE_IDLE\<rparr>)
      | BA_TRANSPORT_SCO_STATE_IDLE \<Rightarrow> Next s
      | BA_TRANSPORT_SCO_STATE_RUNNING \<Rightarrow> Next s)"

text \<open>\<^verbatim>\<open>if (pfds[5].revents & POLLIN)\<close>\<close>

definition sco_thread_timer ::
  "sco_build \<Rightarrow> sco_env \<Rightarrow> sco_thread_state \<Rightarrow> sco_thread_state flow" where
  "sco_thread_timer b e s =
     (if revents (pfds s 5) AND POLLIN \<noteq> 0 then
        (if ret (timer_read e) = -1 then Fail (sco_cancel_timer s)
         else sco_timer_action b s)
      else Next s)"

subsection \<open>Moving data\<close>

text \<open>A \<^verbatim>\<open>ssize_t\<close> passed where a \<^verbatim>\<open>size_t\<close> is expected, and
  \<^verbatim>\<open>samples * sizeof(int16_t)\<close>, which is computed in \<^verbatim>\<open>size_t\<close>.\<close>

definition to_size_t :: "int \<Rightarrow> nat" where
  "to_size_t k = unat (word_of_int k :: size_t)"

definition samples_bytes :: "int \<Rightarrow> nat" where
  "samples_bytes k = unat (word_of_int k * 2 :: size_t)"

text \<open>From the label \<^verbatim>\<open>retry_sco_read\<close> to the end of the block.  The list
  holds the answers of the successive \<^verbatim>\<open>read\<close> calls.\<close>

fun sco_read_retry ::
  "sco_build \<Rightarrow> hfp_codec \<Rightarrow> syscall list \<Rightarrow> sco_thread_state \<Rightarrow> sco_thread_state flow" where
  "sco_read_retry b c [] s = Blocked"
| "sco_read_retry b c (r # rs) s =
     (if ret r \<le> 0 then
        (if errno_after r = EINTR then sco_read_retry b c rs s
         else if errno_after r = 0 \<or> errno_after r = ECONNABORTED
                 \<or> errno_after r = ECONNRESET
         then Continue (sco_release_bt s)
         else Continue (error ''SCO read error'' s))
      else Next
        (if mic_pcm_fd s \<noteq> -1 then
           (if msbc_arm b c
            then s\<lparr>msbc := (msbc s)\<lparr>dec_data := ffb_seek (dec_data (msbc s)) (to_size_t (ret r))\<rparr>\<rparr>
            else s\<lparr>bt_in := ffb_seek (bt_in s) (to_size_t (ret r))\<rparr>)
         else s))"

text \<open>\<^verbatim>\<open>if (pfds[1].revents & POLLIN) ... else if (pfds[1].revents & (POLLERR | POLLHUP))\<close>\<close>

definition sco_thread_sco_read ::
  "sco_build \<Rightarrow> sco_env \<Rightarrow> hfp_codec \<Rightarrow> sco_thread_state \<Rightarrow> sco_thread_state flow" where
  "sco_thread_sco_read b e c s =
     (if revents (pfds s 1) AND POLLIN \<noteq> 0 then
        sco_read_retry b c (sco_read e)
          (if msbc_arm b c then s
           else if mic_pcm_fd s = -1 then s\<lparr>bt_in := ffb_rewind (bt_in s)\<rparr>
           else s)
      else if revents (pfds s 1) AND (POLLERR OR POLLHUP) \<noteq> 0 then Next (sco_release_bt s)
      else Next s)"

text \<open>From the label \<^verbatim>\<open>retry_sco_write\<close> to the end of the block.\<close>

fun sco_write_retry ::
  "sco_build \<Rightarrow> hfp_codec \<Rightarrow> syscall list \<Rightarrow> sco_thread_state \<Rightarrow> sco_thread_state flow" where
  "sco_write_retry b c [] s = Blocked"
| "sco_write_retry b c (r # rs) s =
     (if ret r \<le> 0 then
        (if errno_after r = EINTR then sco_write_retry b c rs s
         else if errno_after r = 0 \<or> errno_after r = ECONNABORTED
                 \<or> errno_after r = ECONNRESET
         then Continue (sco_release_bt s)
         else Continue (error ''SCO write error'' s))
      else Next
        (if msbc_arm b c
         then s\<lparr>msbc := (msbc s)\<lparr>enc_data := ffb_shift (enc_data (msbc s)) (to_size_t (ret r))\<rparr>\<rparr>
         else s\<lparr>bt_out := ffb_shift (bt_out s) (to_size_t (ret r))\<rparr>))"

definition sco_thread_sco_write ::
  "sco_build \<Rightarrow> sco_env \<Rightarrow> hfp_codec \<Rightarrow> sco_thread_state \<Rightarrow> sco_thread_state flow" where
  "sco_thread_sco_write b e c s =
     (if revents (pfds s 2) AND POLLOUT \<noteq> 0 then sco_write_retry b c (sco_write e) s
      else Next s)"

text \<open>\<^verbatim>\<open>if (pfds[3].revents & POLLIN) ... else if (pfds[3].revents & (POLLERR | POLLHUP))\<close>\<close>

definition sco_thread_pcm_read ::
  "sco_build \<Rightarrow> sco_env \<Rightarrow> hfp_codec \<Rightarrow> sco_thread_state \<Rightarrow> sco_thread_state flow" where
  "sco_thread_pcm_read b e c s0 =
     (if revents (pfds s0 3) AND POLLIN \<noteq> 0 then
        (let r = pcm_read e in
         if ret r \<le> 0 then
           (let s = (if ret r = -1 \<and> err r \<noteq> EAGAIN
                     then error ''PCM read error'' s0 else s0);
                s = (if ret r = 0
                     then ba_transport_thread_send_signal BA_TRANSPORT_SIGNAL_PCM_CLOSE s else s)
            in Continue s)
         else Next
           (if msbc_arm b c
            then s0\<lparr>msbc := (msbc s0)\<lparr>enc_pcm := ffb_seek (enc_pcm (msbc s0)) (to_size_t (ret r))\<rparr>\<rparr>
            else s0\<lparr>bt_out := ffb_seek (bt_out s0) (samples_bytes (ret r))\<rparr>))
      else if revents (pfds s0 3) AND (POLLERR OR POLLHUP) \<noteq> 0 then
        Next (ba_transport_thread_send_signal BA_TRANSPORT_SIGNAL_PCM_CLOSE
                (ba_transport_pcm_release_spk s0))
      else Next s0)"

text \<open>\<^verbatim>\<open>if (pfds[4].revents & POLLOUT)\<close>\<close>

definition sco_thread_pcm_write ::
  "sco_build \<Rightarrow> sco_env \<Rightarrow> hfp_codec \<Rightarrow> sco_thread_state \<Rightarrow> sco_thread_state flow" where
  "sco_thread_pcm_write b e c s0 =
     (if revents (pfds s0 4) AND POLLOUT \<noteq> 0 then
        (let r = pcm_write e;
             s = (if ret r \<le> 0 \<and> ret r = -1 then error ''FIFO write error'' s0 else s0);
             s = (if ret r \<le> 0 \<and> ret r = 0
                  then ba_transport_thread_send_signal BA_TRANSPORT_SIGNAL_PCM_CLOSE s else s)
         in Next
           (if msbc_arm b c
            then s\<lparr>msbc := (msbc s)\<lparr>dec_pcm := ffb_shift (dec_pcm (msbc s)) (to_size_t (ret r))\<rparr>\<rparr>
            else s\<lparr>bt_in := ffb_shift (bt_in s) (samples_bytes (ret r))\<rparr>))
      else Next s0)"

text \<open>The last \<^verbatim>\<open>switch (codec)\<close> and the delay update.\<close>

definition sco_thread_pacing ::
  "sco_build \<Rightarrow> sco_env \<Rightarrow> hfp_codec \<Rightarrow> sco_thread_state \<Rightarrow> sco_thread_state" where
  "sco_thread_pacing b e c s0 =
     (let s = (if msbc_arm b c then
                 (if 0 < enc_frames (msbc s0)
                  then (asrsync_sync (enc_frames (msbc s0) * MSBC_CODESAMPLES) s0)
                         \<lparr>msbc := (msbc s0)\<lparr>enc_frames := 0\<rparr>\<rparr>
                  else s0)
               else asrsync_sync (mtu_write s0 div 2) s0)
      in s\<lparr>spk_pcm_delay := busy_usec e div 100, mic_pcm_delay := busy_usec e div 100\<rparr>)"

subsection \<open>The loop body\<close>

text \<open>The body after the timer block: rate synchroniser start, the four
  data blocks and the pacing.\<close>

definition sco_thread_io ::
  "sco_build \<Rightarrow> sco_env \<Rightarrow> hfp_codec \<Rightarrow> sco_thread_state \<Rightarrow> sco_thread_state flow" where
  "sco_thread_io b e c s0 =
     then_do (sco_thread_sco_read b e c
                (if asrs_frames s0 = 0 then asrsync_init (spk_pcm_sampling s0) s0 else s0)) (\<lambda>s.
     then_do (sco_thread_sco_write b e c s) (\<lambda>s.
     then_do (sco_thread_pcm_read b e c s) (\<lambda>s.
     then_do (sco_thread_pcm_write b e c s) (\<lambda>s.
     Next (sco_thread_pacing b e c s)))))"

text \<open>The body after the signal block.\<close>

definition sco_thread_after_signal ::
  "sco_build \<Rightarrow> sco_env \<Rightarrow> hfp_codec \<Rightarrow> sco_thread_state \<Rightarrow> sco_thread_state flow" where
  "sco_thread_after_signal b e c s0 =
     then_do (sco_thread_timer b e s0) (sco_thread_io b e c)"

text \<open>One pass through \<^verbatim>\<open>for (;;) { ... }\<close>.  \<open>Next\<close> means that the end of
  the body was reached.\<close>

definition sco_thread_iteration ::
  "sco_build \<Rightarrow> sco_env \<Rightarrow> sco_thread_state \<Rightarrow> sco_thread_state flow" where
  "sco_thread_iteration b e s0 =
     then_do (sco_thread_setup b e (codec s0) s0) (\<lambda>s.
     then_do (sco_thread_poll e s) (\<lambda>s.
     then_do (sco_thread_signal b s) (\<lambda>s.
     sco_thread_after_signal b e (codec s0) s)))"

text \<open>The loop over the environments of successive wake-ups; it stops when
  an iteration jumps to \<^verbatim>\<open>fail\<close>.\<close>

fun sco_thread_loop ::
  "sco_build \<Rightarrow> sco_env list \<Rightarrow> sco_thread_state \<Rightarrow> sco_thread_state flow" where
  "sco_thread_loop b [] s = Next s"
| "sco_thread_loop b (e # es) s =
     (case sco_thread_iteration b e s of
        Next s' \<Rightarrow> sco_thread_loop b es s'
      | Continue s' \<Rightarrow> sco_thread_loop b es s'
      | Fail s' \<Rightarrow> Fail s'
      | Blocked \<Rightarrow> Blocked)"

text \<open>The local variables as \<^verbatim>\<open>sco_thread\<close> sets them up before the loop:
  two byte buffers of 128, an uninitialised mSBC pipeline to be initialised,
  a fresh rate synchroniser, and the poll table with the pipe's read end
  \<open>pipe0\<close> and the timer descriptor \<open>timer_fd\<close>.\<close>

definition sco_thread_enter ::
  "nat \<Rightarrow> int \<Rightarrow> int \<Rightarrow> sco_thread_state \<Rightarrow> sco_thread_state" where
  "sco_thread_enter thr pipe0 timer_fd s =
     s\<lparr> bt_in := ffb_init_uint8_t thr 128,
        bt_out := ffb_init_uint8_t thr 128,
        msbc := \<lparr> initialized = False,
                  enc_pcm = ffb_zero thr, enc_data = ffb_zero thr,
                  dec_data = ffb_zero thr, dec_pcm = ffb_zero thr,
                  enc_frames = 0 \<rparr>,
        initialize_msbc := True,
        asrs_frames := 0,
        pfds := (\<lambda>i. if i = 0 then \<lparr>fd = pipe0, events = POLLIN, revents = 0\<rparr>
                     else if i = 5 then \<lparr>fd = timer_fd, events = POLLIN, revents = 0\<rparr>
                     else if i = 2 \<or> i = 4 then \<lparr>fd = -1, events = POLLOUT, revents = 0\<rparr>
                     else \<lparr>fd = -1, events = POLLIN, revents = 0\<rparr>) \<rparr>"

subsection \<open>The state machine as the specification words it\<close>

text \<open>What the table of section 4.4 speaks about: the transport state, the
  timer as a number of milliseconds it is armed for (a zero \<^verbatim>\<open>it_value\<close>
  disarms a timer descriptor), and how often \<open>release()\<close> was called, the
  drain condition signalled and the speaker FIFO flushed.\<close>

record sco_view =
  v_state :: ba_transport_sco_state
  v_timer :: "int option"
  v_released :: nat
  v_synced :: nat
  v_flushed :: nat

definition armed_ms :: "itimerspec \<Rightarrow> int option" where
  "armed_ms t =
     (if tv_sec (it_value t) = 0 \<and> tv_nsec (it_value t) = 0 then None
      else Some (sint (tv_sec (it_value t)) * 1000 + sint (tv_nsec (it_value t)) div 1000000))"

definition view :: "sco_thread_state \<Rightarrow> sco_view" where
  "view s = \<lparr> v_state = sco_state s, v_timer = armed_ms (timer s),
             v_released = count_list (calls s) Call_release,
             v_synced = count_list (calls s) Call_cond_signal_synced,
             v_flushed = count_list (calls s) Call_pcm_flush_spk \<rparr>"

text \<open>``profile \<open>\<in>\<close> AG and both PCMs closed''\<close>

definition transport_idle :: "sco_build \<Rightarrow> sco_thread_state \<Rightarrow> bool" where
  "transport_idle b s = (profile_is_ag b s \<and> spk_pcm_fd s = -1 \<and> mic_pcm_fd s = -1)"

text \<open>The table ``Signal pipe dispatch'' of section 4.4, row by row, with
  the timeouts of section 5 (drain 250 ms, linger 1000 ms, close 600 ms).\<close>

definition table_signal :: "bool \<Rightarrow> ba_transport_signal \<Rightarrow> sco_view \<Rightarrow> sco_view" where
  "table_signal idle sig v =
     (if sig = BA_TRANSPORT_SIGNAL_PCM_OPEN \<or> sig = BA_TRANSPORT_SIGNAL_PCM_RESUME
        then v\<lparr>v_timer := None, v_state := BA_TRANSPORT_SCO_STATE_RUNNING\<rparr>
      else if sig = BA_TRANSPORT_SIGNAL_PCM_CLOSE
        then (if idle \<and> v_state v \<noteq> BA_TRANSPORT_SCO_STATE_LINGER
              then v\<lparr>v_state := BA_TRANSPORT_SCO_STATE_LINGER, v_timer := Some 1000\<rparr>
              else v)
      else if sig = BA_TRANSPORT_SIGNAL_PCM_SYNC
        then v\<lparr>v_state := BA_TRANSPORT_SCO_STATE_DRAINING, v_timer := Some 250\<rparr>
      else if sig = BA_TRANSPORT_SIGNAL_PCM_DROP
        then v\<lparr>v_timer := None, v_flushed := v_flushed v + 1\<rparr>
      else v)"

text \<open>The table ``Timer expiry'' of section 4.4.\<close>

definition table_timer :: "bool \<Rightarrow> sco_view \<Rightarrow> sco_view" where
  "table_timer idle v =
     (if v_state v = BA_TRANSPORT_SCO_STATE_DRAINING
        then v\<lparr>v_state := BA_TRANSPORT_SCO_STATE_RUNNING, v_synced := v_synced v + 1\<rparr>
      else if v_state v = BA_TRANSPORT_SCO_STATE_LINGER
        then (if idle
              then v\<lparr>v_state := BA_TRANSPORT_SCO_STATE_CLOSING,
                     v_released := v_released v + 1, v_timer := Some 600\<rparr>
              else v)
      else if v_state v = BA_TRANSPORT_SCO_STATE_CLOSING
        then v\<lparr>v_state := BA_TRANSPORT_SCO_STATE_IDLE\<rparr>
      else v)"

subsection \<open>Statements about every way a block can end\<close>

text \<open>\<open>flow_all P c\<close>: the state that \<open>c\<close> ends in, if it ends, satisfies \<open>P\<close>.
  \<open>flow_alive c\<close>: \<open>c\<close> does not jump to \<^verbatim>\<open>fail\<close>.\<close>

definition flow_all :: "('a \<Rightarrow> bool) \<Rightarrow> 'a flow \<Rightarrow> bool" where
  "flow_all P c = (case c of Next s \<Rightarrow> P s | Continue s \<Rightarrow> P s
                     | Fail s \<Rightarrow> P s | Blocked \<Rightarrow> True)"

definition flow_alive :: "'a flow \<Rightarrow> bool" where
  "flow_alive c = (case c of Next s \<Rightarrow> True | Continue s \<Rightarrow> True
                     | Fail s \<Rightarrow> False | Blocked \<Rightarrow> True)"

text \<open>\<open>flow_returns c\<close>: \<open>c\<close> ends, one way or another.\<close>

definition flow_returns :: "'a flow \<Rightarrow> bool" where
  "flow_returns c = (case c of Next s \<Rightarrow> True | Continue s \<Rightarrow> True
                       | Fail s \<Rightarrow> True | Blocked \<Rightarrow> False)"

text \<open>What the data blocks and the pacing leave alone: the transport state,
  the mark for reinitialisation, and the pipe except for \<^verbatim>\<open>PCM_CLOSE\<close>
  signals appended to it.\<close>

definition io_frame :: "sco_thread_state \<Rightarrow> sco_thread_state \<Rightarrow> bool" where
  "io_frame s s' =
     (sco_state s' = sco_state s \<and> initialize_msbc s' = initialize_msbc s
      \<and> (\<exists>k. pipe s' = pipe s @ replicate k BA_TRANSPORT_SIGNAL_PCM_CLOSE))"

subsection \<open>Bookkeeping for whole iterations\<close>

text \<open>The transport states in which an iteration that starts in \<open>s\<close> may end
  if it follows the table: at most one row of the signal table, for the oldest
  signal in the pipe, and then at most one row of the timer table.\<close>

definition table_iteration_states :: "sco_build \<Rightarrow> sco_thread_state \<Rightarrow> ba_transport_sco_state list" where
  "table_iteration_states b s =
     concat (map (\<lambda>v. [v_state v, v_state (table_timer (transport_idle b s) v)])
       (view s # (case pipe s of [] \<Rightarrow> []
                  | sig # rest \<Rightarrow> [table_signal (transport_idle b s) sig (view s)])))"

text \<open>What an iteration does to the SCO link: either \<open>bt_fd\<close> is as before and
  \<open>release()\<close> was not called, or \<open>release()\<close> was called and \<open>bt_fd\<close> is -1.\<close>

definition link_frame :: "sco_thread_state \<Rightarrow> sco_thread_state \<Rightarrow> bool" where
  "link_frame s s' =
     ((bt_fd s' = bt_fd s
         \<and> count_list (calls s') Call_release = count_list (calls s) Call_release)
      \<or> (bt_fd s' = -1
         \<and> count_list (calls s) Call_release < count_list (calls s') Call_release))"

text \<open>What choosing the descriptors and polling leave alone.\<close>

definition pre_frame :: "sco_build \<Rightarrow> sco_thread_state \<Rightarrow> sco_thread_state \<Rightarrow> bool" where
  "pre_frame b s s' = (view s' = view s \<and> transport_idle b s' = transport_idle b s \<and> pipe s' = pipe s)"

text \<open>The pipe after an iteration: at most the oldest signal is gone, and only
  \<^verbatim>\<open>PCM_CLOSE\<close> signals were appended.\<close>

definition one_signal_consumed :: "sco_thread_state \<Rightarrow> sco_thread_state \<Rightarrow> bool" where
  "one_signal_consumed s s' =
     (\<exists>n. pipe s' = pipe s @ replicate n BA_TRANSPORT_SIGNAL_PCM_CLOSE
         \<or> pipe s' = tl (pipe s) @ replicate n BA_TRANSPORT_SIGNAL_PCM_CLOSE)"

text \<open>What the loop body does to the timer: it leaves it as it is, disarms it,
  or arms it through \<^verbatim>\<open>sco_start_timer\<close> with one of the three timeouts.\<close>

definition timer_frame :: "sco_thread_state \<Rightarrow> sco_thread_state \<Rightarrow> bool" where
  "timer_frame s s' =
     (timer s' = timer s \<or> timer s' = sco_cancel_timer_timeout
      \<or> timer s' = sco_start_timer_timeout SCO_DRAIN_TIMEOUT
      \<or> timer s' = sco_start_timer_timeout SCO_LINGER_TIMEOUT
      \<or> timer s' = sco_start_timer_timeout SCO_CLOSE_TIMEOUT)"

text \<open>An initialised mSBC pipeline stays initialised.\<close>

definition pipeline_frame :: "sco_thread_state \<Rightarrow> sco_thread_state \<Rightarrow> bool" where
  "pipeline_frame s s' = (initialized (msbc s) \<longrightarrow> initialized (msbc s'))"

text \<open>Neither the timer nor the pipeline's \<open>initialized\<close> flag has changed.\<close>

definition untouched :: "sco_thread_state \<Rightarrow> sco_thread_state \<Rightarrow> bool" where
  "untouched s s' = (timer s' = timer s \<and> initialized (msbc s') = initialized (msbc s))"

text \<open>An environment that lets an iteration end: the answers to the repeated
  \<^verbatim>\<open>read\<close> and \<^verbatim>\<open>write\<close> contain one that is not an interrupted call,
  and \<^verbatim>\<open>poll\<close> does not report a signal when the pipe is empty.\<close>

definition answers_end :: "syscall list \<Rightarrow> bool" where
  "answers_end rs = list_ex (\<lambda>r. \<not> (ret r \<le> 0 \<and> errno_after r = EINTR)) rs"

definition env_answers :: "sco_env \<Rightarrow> sco_thread_state \<Rightarrow> bool" where
  "env_answers e s =
     ((pipe s \<noteq> [] \<or> poll_revents e 0 AND POLLIN = 0)
      \<and> answers_end (sco_read e) \<and> answers_end (sco_write e))"

subsection \<open>Scenarios\<close>

text \<open>A build with mSBC, the audio-gateway mask of HFP-AG (8) and HSP-AG
  (32), and pipeline buffers of two frames; a transport with an SCO link of
  MTU 48 and both PCMs open, as the thread finds it on entry; an environment
  in which \<^verbatim>\<open>poll\<close> reports \<open>ready\<close> and every call succeeds.\<close>

definition scenario_build :: sco_build where
  "scenario_build =
     \<lparr> ENABLE_MSBC = True, BA_TRANSPORT_PROFILE_MASK_AG = 40,
       msbc_fresh =
         \<lparr> initialized = False,
           enc_pcm = \<lparr>capacity = 240, elsize = 2, threshold = 0, head = 0, tail = 0\<rparr>,
           enc_data = \<lparr>capacity = 120, elsize = 1, threshold = 0, head = 0, tail = 0\<rparr>,
           dec_data = \<lparr>capacity = 120, elsize = 1, threshold = 0, head = 0, tail = 0\<rparr>,
           dec_pcm = \<lparr>capacity = 240, elsize = 2, threshold = 0, head = 0, tail = 0\<rparr>,
           enc_frames = 0 \<rparr> \<rparr>"

definition scenario_transport :: "hfp_codec \<Rightarrow> 32 word \<Rightarrow> sco_thread_state" where
  "scenario_transport c p =
     sco_thread_enter 0 3 4
       \<lparr> bt_fd = 10, mtu_read = 48, mtu_write = 48, profile = p, codec = c,
         spk_pcm_fd = 11, mic_pcm_fd = 12, spk_pcm_sampling = 8000,
         spk_pcm_delay = 0, mic_pcm_delay = 0,
         sco_state = BA_TRANSPORT_SCO_STATE_IDLE, timer = sco_cancel_timer_timeout,
         pipe = [], bt_in = ffb_zero 0, bt_out = ffb_zero 0,
         msbc = msbc_fresh scenario_build, initialize_msbc = False, asrs_frames = 0,
         pfds = (\<lambda>i. \<lparr>fd = -1, events = 0, revents = 0\<rparr>), calls = [] \<rparr>"

definition scenario_env :: "(nat \<Rightarrow> 16 word) \<Rightarrow> sco_env" where
  "scenario_env ready =
     \<lparr> msbc_init_ret = 0, msbc_encode_ret = 0, msbc_decode_ret = 0,
       poll_ret = \<lparr>ret = 1, err = 0\<rparr>, poll_revents = ready,
       timer_read = \<lparr>ret = 8, err = 0\<rparr>,
       sco_read = [\<lparr>ret = 48, err = 0\<rparr>], sco_write = [\<lparr>ret = 48, err = 0\<rparr>],
       pcm_read = \<lparr>ret = 24, err = 0\<rparr>, pcm_write = \<lparr>ret = 24, err = 0\<rparr>,
       busy_usec = 0 \<rparr>"

section \<open>Properties\<close>

subsection \<open>Tools\<close>

lemma flow_all_simps [simp]:
  "flow_all P (Next s) = P s" "flow_all P (Continue s) = P s"
  "flow_all P (Fail s) = P s" "flow_all P Blocked = True"
  by (simp_all add: flow_all_def)

lemma flow_alive_simps [simp]:
  "flow_alive (Next s)" "flow_alive (Continue s)" "\<not> flow_alive (Fail s)" "flow_alive Blocked"
  by (simp_all add: flow_alive_def)

lemma then_do_simps [simp]:
  "then_do (Next s) f = f s" "then_do (Continue s) f = Continue s"
  "then_do (Fail s) f = Fail s" "then_do Blocked f = Blocked"
  by (simp_all add: then_do_def)

lemma flow_all_then_do:
  assumes "flow_all Q c" and "\<And>s. Q s \<Longrightarrow> P s" and "\<And>s. Q s \<Longrightarrow> flow_all P (f s)"
  shows "flow_all P (then_do c f)"
  using assms by (cases c) auto

lemma flow_alive_then_do:
  assumes "flow_alive c" and "\<And>s. flow_alive (f s)"
  shows "flow_alive (then_do c f)"
  using assms by (cases c) auto

lemma flow_all_mono:
  "flow_all Q c \<Longrightarrow> (\<And>s. Q s \<Longrightarrow> P s) \<Longrightarrow> flow_all P c"
  by (cases c) auto

lemma flow_all_rel_then_do:
  assumes "\<And>x y z. R x y \<Longrightarrow> R y z \<Longrightarrow> R x z"
    and "flow_all (R s) c" and "\<And>s1. flow_all (R s1) (f s1)"
  shows "flow_all (R s) (then_do c f)"
proof (cases c)
  case (Next s1)
  with assms(2) have "R s s1" by simp
  with assms(3) [of s1] have "flow_all (R s) (f s1)"
    by (auto elim: flow_all_mono intro: assms(1))
  with Next show ?thesis by simp
qed (use assms(2) in auto)

lemmas sco_defs =
  call_def error_def warn_def sco_release_bt_def sco_start_timer_def sco_cancel_timer_def
  ba_transport_thread_send_signal_def ba_transport_pcm_release_spk_def
  ba_transport_pcm_flush_spk_def asrsync_init_def asrsync_sync_def

lemma flow_state_simps [simp]:
  "flow_state (Next s) = Some s" "flow_state (Continue s) = Some s"
  "flow_state (Fail s) = Some s" "flow_state Blocked = None"
  by (simp_all add: flow_state_def)

lemmas scenario_defs =
  scenario_build_def scenario_transport_def scenario_env_def sco_thread_enter_def
  ffb_zero_def ffb_init_uint8_t_def

lemma sco_thread_setup_unfold:
  "sco_thread_setup b e c s =
     (if ENABLE_MSBC b \<and> initialize_msbc s \<and> c = HFP_CODEC_MSBC then
        (if msbc_init_ret e \<noteq> 0
         then Fail (error ''Couldn't initialize mSBC codec''
                (call Call_msbc_init
                  ((sco_pfds_reset s)\<lparr>initialize_msbc := False,
                     msbc := msbc_init (msbc_fresh b) (msbc_init_ret e) (msbc s)\<rparr>)))
         else Next (sco_pfds_msbc (sco_msbc_encode_decode e
                (call Call_msbc_init
                  ((sco_pfds_reset s)\<lparr>initialize_msbc := False,
                     msbc := msbc_init (msbc_fresh b) (msbc_init_ret e) (msbc s)\<rparr>)))))
      else Next (if msbc_arm b c then sco_pfds_msbc (sco_msbc_encode_decode e (sco_pfds_reset s))
                 else sco_pfds_cvsd (sco_pfds_reset s)))"
  by (simp add: sco_thread_setup_def Let_def msbc_arm_def sco_pfds_reset_def set_pfd_def)

lemmas sco_eval =
  scenario_defs sco_defs sco_thread_iteration_def sco_thread_setup_unfold msbc_arm_def
  msbc_init_def sco_pfds_msbc_def sco_pfds_cvsd_def sco_msbc_encode_decode_def
  sco_pfds_reset_def set_pfd_def msbc_encode.simps msbc_decode.simps
  ffb_rewind_def ffb_seek_def ffb_len_out_def ffb_len_in_def ffb_blen_in_def ffb_blen_out_def
  MSBC_CODESAMPLES_def MSBC_FRAMELEN_def Let_def sco_thread_poll_def
  sco_thread_signal_def sco_signal_action_def sco_thread_after_signal_def sco_thread_timer_def
  sco_timer_action_def sco_thread_io_def sco_thread_sco_read_def sco_thread_sco_write_def
  sco_thread_pcm_read_def sco_thread_pcm_write_def sco_thread_pacing_def
  POLLIN_def POLLOUT_def POLLERR_def POLLHUP_def EINTR_def

subsection \<open>What the loop does to the timer and to the pipeline's flag\<close>

lemma untouched_refl [simp]: "untouched s s" "untouched s (sco_release_bt s)"
  by (simp_all add: untouched_def sco_defs)

lemma untouched_trans: "untouched x y \<Longrightarrow> untouched y z \<Longrightarrow> untouched x z"
  by (simp add: untouched_def)

lemma msbc_encode_initialized [simp]: "initialized (msbc_encode m) = initialized m"
  by (induction m rule: msbc_encode.induct) (subst msbc_encode.simps, simp)

lemma msbc_decode_initialized [simp]: "initialized (msbc_decode m) = initialized m"
  by (induction m rule: msbc_decode.induct) (subst msbc_decode.simps, simp)

lemma sco_read_retry_untouched: "flow_all (untouched s) (sco_read_retry b c rs s)"
  by (induction rs) (auto simp: sco_defs untouched_def)

lemma sco_write_retry_untouched: "flow_all (untouched s) (sco_write_retry b c rs s)"
  by (induction rs) (auto simp: sco_defs untouched_def)

lemma sco_thread_sco_read_untouched: "flow_all (untouched s) (sco_thread_sco_read b e c s)"
proof -
  have "flow_all (untouched s) (sco_read_retry b c rs (s\<lparr>bt_in := x\<rparr>))" for rs x
    using sco_read_retry_untouched [of "s\<lparr>bt_in := x\<rparr>" b c rs]
    by (auto elim!: flow_all_mono simp: untouched_def)
  then show ?thesis
    by (auto simp: sco_thread_sco_read_def sco_read_retry_untouched)
qed

lemma sco_thread_sco_write_untouched: "flow_all (untouched s) (sco_thread_sco_write b e c s)"
  by (simp add: sco_thread_sco_write_def sco_write_retry_untouched)

lemma sco_thread_pcm_read_untouched: "flow_all (untouched s) (sco_thread_pcm_read b e c s)"
  by (auto simp: sco_thread_pcm_read_def Let_def sco_defs untouched_def)

lemma sco_thread_pcm_write_untouched: "flow_all (untouched s) (sco_thread_pcm_write b e c s)"
  by (auto simp: sco_thread_pcm_write_def Let_def sco_defs untouched_def)

lemma sco_thread_pacing_untouched: "untouched s (sco_thread_pacing b e c s)"
  by (auto simp: sco_thread_pacing_def Let_def sco_defs untouched_def)

lemma sco_thread_io_untouched: "flow_all (untouched s) (sco_thread_io b e c s)"
proof -
  have start: "untouched s (if asrs_frames s = 0 then asrsync_init (spk_pcm_sampling s) s else s)"
    by (auto simp: sco_defs untouched_def)
  have "flow_all (untouched s)
          (sco_thread_sco_read b e c
             (if asrs_frames s = 0 then asrsync_init (spk_pcm_sampling s) s else s))"
    using sco_thread_sco_read_untouched start
    by (blast intro: flow_all_mono untouched_trans)
  then show ?thesis
    unfolding sco_thread_io_def
    by (intro flow_all_rel_then_do [where R = untouched])
       (simp_all add: sco_thread_sco_write_untouched sco_thread_pcm_read_untouched
          sco_thread_pcm_write_untouched sco_thread_pacing_untouched,
        (blast intro: untouched_trans)+)
qed

lemma timer_frame_refl [simp]: "timer_frame s s"
  by (simp add: timer_frame_def)

lemma timer_frame_trans: "timer_frame x y \<Longrightarrow> timer_frame y z \<Longrightarrow> timer_frame x z"
  unfolding timer_frame_def by auto

lemma pipeline_frame_refl [simp]: "pipeline_frame s s"
  by (simp add: pipeline_frame_def)

lemma pipeline_frame_trans: "pipeline_frame x y \<Longrightarrow> pipeline_frame y z \<Longrightarrow> pipeline_frame x z"
  unfolding pipeline_frame_def by auto

lemma untouched_frames: "untouched s s' \<Longrightarrow> timer_frame s s' \<and> pipeline_frame s s'"
  by (simp add: untouched_def timer_frame_def pipeline_frame_def)

lemma setup_steps_untouched [simp]:
  "untouched s (sco_pfds_reset s') = untouched s s'"
  "untouched s (sco_pfds_cvsd s') = untouched s s'"
  "untouched s (sco_pfds_msbc s') = untouched s s'"
  "untouched s (sco_msbc_encode_decode e s') = untouched s s'"
  "untouched s (error msg s') = untouched s s'"
  by (simp_all add: untouched_def sco_pfds_reset_def sco_pfds_cvsd_def sco_pfds_msbc_def
      sco_msbc_encode_decode_def set_pfd_def Let_def sco_defs)

lemma sco_thread_setup_timer_pipeline:
  "flow_all (\<lambda>s'. timer s' = timer s \<and> (initialized (msbc s) \<longrightarrow> initialized (msbc s')))
     (sco_thread_setup b e c s)"
proof -
  let ?P = "\<lambda>s'. timer s' = timer s \<and> (initialized (msbc s) \<longrightarrow> initialized (msbc s'))"
  let ?s1 = "call Call_msbc_init
               ((sco_pfds_reset s)\<lparr>initialize_msbc := False,
                  msbc := msbc_init (msbc_fresh b) (msbc_init_ret e) (msbc s)\<rparr>)"
  have init: "?P ?s1"
    by (simp add: sco_defs msbc_init_def sco_pfds_reset_def set_pfd_def)
  have keep: "?P x'" if "untouched x x'" and "?P x" for x x'
    using that by (simp add: untouched_def)
  have "?P (error ''Couldn't initialize mSBC codec'' ?s1)"
    by (rule keep [OF _ init]) simp
  moreover have "?P (sco_pfds_msbc (sco_msbc_encode_decode e ?s1))"
    by (rule keep [OF _ init]) simp
  moreover have "?P (sco_pfds_msbc (sco_msbc_encode_decode e (sco_pfds_reset s)))"
    by (rule keep [of s]) simp_all
  moreover have "?P (sco_pfds_cvsd (sco_pfds_reset s))"
    by (rule keep [of s]) simp_all
  ultimately show ?thesis
    unfolding sco_thread_setup_unfold
    by (simp only: flow_all_simps split: if_split) blast
qed

lemma sco_thread_poll_untouched: "flow_all (untouched s) (sco_thread_poll e s)"
  by (simp add: sco_thread_poll_def sco_defs untouched_def)

lemma sco_signal_action_timer:
  "flow_all (\<lambda>s'. timer_frame s s' \<and> initialized (msbc s') = initialized (msbc s))
     (sco_signal_action b sig s)"
  by (cases sig) (auto simp: sco_signal_action_def sco_defs timer_frame_def)

lemma sco_timer_action_timer:
  "flow_all (\<lambda>s'. timer_frame s s' \<and> initialized (msbc s') = initialized (msbc s))
     (sco_timer_action b s)"
  by (cases "sco_state s") (auto simp: sco_timer_action_def sco_defs timer_frame_def)

lemma sco_thread_signal_timer:
  "flow_all (\<lambda>s'. timer_frame s s' \<and> initialized (msbc s') = initialized (msbc s))
     (sco_thread_signal b s)"
proof (cases "pipe s")
  case Nil
  then show ?thesis by (simp add: sco_thread_signal_def)
next
  case (Cons sig rest)
  then show ?thesis
    using sco_signal_action_timer [of "s\<lparr>pipe := rest\<rparr>" b sig]
    by (auto simp: sco_thread_signal_def timer_frame_def elim!: flow_all_mono)
qed

lemma sco_thread_timer_timer:
  "flow_all (\<lambda>s'. timer_frame s s' \<and> initialized (msbc s') = initialized (msbc s))
     (sco_thread_timer b e s)"
  using sco_timer_action_timer [of s b]
  by (simp add: sco_thread_timer_def) (simp add: sco_defs timer_frame_def)

lemma sco_thread_iteration_timer: "flow_all (timer_frame s) (sco_thread_iteration b e s)"
proof -
  have io: "flow_all (timer_frame s1) (sco_thread_io b e c s1)" for s1 c
    using sco_thread_io_untouched [of s1 b e c]
    by (rule flow_all_mono) (simp add: untouched_frames)
  have poll: "flow_all (timer_frame s1) (sco_thread_poll e s1)" for s1
    using sco_thread_poll_untouched [of s1 e]
    by (rule flow_all_mono) (simp add: untouched_frames)
  have pre: "flow_all (timer_frame s) (sco_thread_setup b e c s)" for c
    using sco_thread_setup_timer_pipeline [of s b e c]
    by (rule flow_all_mono) (simp add: timer_frame_def)
  have sig: "flow_all (timer_frame s1) (sco_thread_signal b s1)" for s1
    using sco_thread_signal_timer [of s1 b] by (rule flow_all_mono) simp
  have tim: "flow_all (timer_frame s1) (sco_thread_timer b e s1)" for s1
    using sco_thread_timer_timer [of s1 b e] by (rule flow_all_mono) simp
  show ?thesis
    unfolding sco_thread_iteration_def sco_thread_after_signal_def
    by (intro flow_all_rel_then_do [where R = timer_frame] pre poll sig tim io)
       (blast intro: timer_frame_trans)+
qed

lemma sco_thread_iteration_pipeline: "flow_all (pipeline_frame s) (sco_thread_iteration b e s)"
proof -
  have io: "flow_all (pipeline_frame s1) (sco_thread_io b e c s1)" for s1 c
    using sco_thread_io_untouched [of s1 b e c]
    by (rule flow_all_mono) (simp add: untouched_frames)
  have poll: "flow_all (pipeline_frame s1) (sco_thread_poll e s1)" for s1
    using sco_thread_poll_untouched [of s1 e]
    by (rule flow_all_mono) (simp add: untouched_frames)
  have pre: "flow_all (pipeline_frame s) (sco_thread_setup b e c s)" for c
    using sco_thread_setup_timer_pipeline [of s b e c]
    by (rule flow_all_mono) (simp add: pipeline_frame_def)
  have sig: "flow_all (pipeline_frame s1) (sco_thread_signal b s1)" for s1
    using sco_thread_signal_timer [of s1 b] by (rule flow_all_mono) (simp add: pipeline_frame_def)
  have tim: "flow_all (pipeline_frame s1) (sco_thread_timer b e s1)" for s1
    using sco_thread_timer_timer [of s1 b e] by (rule flow_all_mono) (simp add: pipeline_frame_def)
  show ?thesis
    unfolding sco_thread_iteration_def sco_thread_after_signal_def
    by (intro flow_all_rel_then_do [where R = pipeline_frame] pre poll sig tim io)
       (blast intro: pipeline_frame_trans)+
qed

subsection \<open>Arithmetic of the timer value\<close>

lemma sint_long_of_int:
  "- 9223372036854775808 \<le> k \<Longrightarrow> k < 9223372036854775808 \<Longrightarrow>
   sint (word_of_int k :: long) = k"
  by (simp add: sint_sbintrunc' signed_take_bit_int_eq_self)

lemma div_1000_bounds:
  assumes "0 \<le> (m::int)"
  shows "0 \<le> m div 1000" and "m div 1000 \<le> m"
proof -
  show nn: "0 \<le> m div 1000"
    using assms by (simp add: pos_imp_zdiv_nonneg_iff)
  have "m div 1000 * 1000 + m mod 1000 = m" by simp
  moreover have "0 \<le> m mod 1000" by simp
  ultimately show "m div 1000 \<le> m" using nn by linarith
qed

lemma sint_msec_times_million:
  assumes "0 \<le> sint (m::long)" and "sint m \<le> 9223372036854"
  shows "sint (m * 1000000) = sint m * 1000000"
proof -
  have "sint (m * 1000000) = signed_take_bit 63 (sint m * sint (1000000::long))"
    by (simp add: sint_word_ariths)
  also have "\<dots> = sint m * 1000000"
    using assms by (simp add: signed_take_bit_int_eq_self)
  finally show ?thesis .
qed

lemma sint_long_div_1000:
  assumes "0 \<le> sint (m::long)"
  shows "sint (long_div m 1000) = sint m div 1000"
proof -
  have trunc: "sint m sdiv 1000 = sint m div 1000"
    using assms by (simp add: signed_divide_int_def sgn_if)
  have "sint m < 9223372036854775808"
    using sint_lt [of m] by simp
  with div_1000_bounds [OF assms]
  have "sint (word_of_int (sint m div 1000) :: long) = sint m div 1000"
    by (intro sint_long_of_int) linarith+
  then show ?thesis
    unfolding long_div_def by (simp add: trunc)
qed

lemma sint_long_rem_nsec:
  assumes "0 \<le> sint (m::long)" and "sint m \<le> 9223372036854"
  shows "sint (long_rem (m * 1000000) 1000000000) = (sint m * 1000000) mod 1000000000"
proof -
  have prod: "sint (m * 1000000) = sint m * 1000000"
    using assms by (rule sint_msec_times_million)
  have trunc: "(sint m * 1000000) smod 1000000000 = (sint m * 1000000) mod 1000000000"
    using assms by (simp add: signed_modulo_int_def sgn_if)
  have "0 \<le> (sint m * 1000000) mod 1000000000"
    and "(sint m * 1000000) mod 1000000000 < 1000000000"
    by simp_all
  then have "sint (word_of_int ((sint m * 1000000) mod 1000000000) :: long)
      = (sint m * 1000000) mod 1000000000"
    by (intro sint_long_of_int) linarith+
  then show ?thesis
    unfolding long_rem_def prod by (simp add: trunc)
qed

lemma msec_split:
  "(m::int) div 1000 * 1000 + (m * 1000000) mod 1000000000 div 1000000 = m"
proof -
  have "(m * 1000000) mod (1000 * 1000000) = (m mod 1000) * 1000000"
    by (rule mult_mod_left [symmetric])
  then show ?thesis by simp
qed

lemma long_mul_defined_msec:
  "0 \<le> sint (m::long) \<Longrightarrow> long_mul_defined m 1000000 \<Longrightarrow> sint m \<le> 9223372036854"
  by (simp add: long_mul_defined_def)

lemma long_mul_defined_timeouts:
  "0 \<le> sint SCO_DRAIN_TIMEOUT \<and> long_mul_defined SCO_DRAIN_TIMEOUT 1000000"
  "0 \<le> sint SCO_LINGER_TIMEOUT \<and> long_mul_defined SCO_LINGER_TIMEOUT 1000000"
  "0 \<le> sint SCO_CLOSE_TIMEOUT \<and> long_mul_defined SCO_CLOSE_TIMEOUT 1000000"
  by (simp_all add: long_mul_defined_def SCO_DRAIN_TIMEOUT_def SCO_LINGER_TIMEOUT_def
      SCO_CLOSE_TIMEOUT_def)

text \<open>
  C6.  For every non-negative \<open>msec\<close> on which \<^verbatim>\<open>sco_start_timer\<close> is defined,
  that is, whose product \<open>msec * 1000000\<close> fits a \<^verbatim>\<open>long\<close>
  (\<open>msec \<le> 9223372036854\<close>; beyond that the multiplication is a signed overflow
  and C gives the call no meaning), the one-shot value handed to
  \<^verbatim>\<open>timerfd_settime\<close> has \<open>tv_sec = msec div 1000\<close>,
  \<open>tv_nsec = (msec * 1000000) mod 1000000000\<close>, \<open>0 \<le> tv_nsec < 1000000000\<close> and
  \<open>tv_sec * 1000 + tv_nsec div 1000000 = msec\<close>, and a zero interval.  Inputs of
  one second and more are included.  The function is static and the loop calls
  it with \<^verbatim>\<open>SCO_DRAIN_TIMEOUT\<close>, \<^verbatim>\<open>SCO_LINGER_TIMEOUT\<close> and \<^verbatim>\<open>SCO_CLOSE_TIMEOUT\<close>
  only, all three non-negative and with a product that fits: whatever an
  iteration does, the timer is afterwards as it was, disarmed, or armed with
  one of these three.
\<close>

theorem sco_start_timer_normalized:
  assumes "0 \<le> sint msec" and "long_mul_defined msec 1000000"
  shows "sint (tv_sec (it_value (sco_start_timer_timeout msec))) = sint msec div 1000
       \<and> sint (tv_nsec (it_value (sco_start_timer_timeout msec)))
           = (sint msec * 1000000) mod 1000000000
       \<and> 0 \<le> sint (tv_nsec (it_value (sco_start_timer_timeout msec)))
       \<and> sint (tv_nsec (it_value (sco_start_timer_timeout msec))) < 1000000000
       \<and> sint (tv_sec (it_value (sco_start_timer_timeout msec))) * 1000
           + sint (tv_nsec (it_value (sco_start_timer_timeout msec))) div 1000000 = sint msec
       \<and> it_interval (sco_start_timer_timeout msec) = \<lparr> tv_sec = 0, tv_nsec = 0 \<rparr>
       \<and> 0 \<le> sint SCO_DRAIN_TIMEOUT \<and> long_mul_defined SCO_DRAIN_TIMEOUT 1000000
       \<and> 0 \<le> sint SCO_LINGER_TIMEOUT \<and> long_mul_defined SCO_LINGER_TIMEOUT 1000000
       \<and> 0 \<le> sint SCO_CLOSE_TIMEOUT \<and> long_mul_defined SCO_CLOSE_TIMEOUT 1000000
       \<and> flow_all (timer_frame s) (sco_thread_iteration b e s)"
proof -
  have fits: "sint msec \<le> 9223372036854"
    using assms by (rule long_mul_defined_msec)
  have sec: "sint (tv_sec (it_value (sco_start_timer_timeout msec))) = sint msec div 1000"
    using assms(1) by (simp add: sco_start_timer_timeout_def sint_long_div_1000)
  have nsec: "sint (tv_nsec (it_value (sco_start_timer_timeout msec)))
      = (sint msec * 1000000) mod 1000000000"
    using assms(1) fits by (simp add: sco_start_timer_timeout_def sint_long_rem_nsec)
  have itv: "it_interval (sco_start_timer_timeout msec) = \<lparr> tv_sec = 0, tv_nsec = 0 \<rparr>"
    by (simp add: sco_start_timer_timeout_def)
  have split: "sint (tv_sec (it_value (sco_start_timer_timeout msec))) * 1000
           + sint (tv_nsec (it_value (sco_start_timer_timeout msec))) div 1000000 = sint msec"
    unfolding sec nsec using msec_split [of "sint msec"] by simp
  have range: "0 \<le> sint (tv_nsec (it_value (sco_start_timer_timeout msec)))"
    "sint (tv_nsec (it_value (sco_start_timer_timeout msec))) < 1000000000"
    unfolding nsec by simp_all
  show ?thesis
    using sec nsec itv split range long_mul_defined_timeouts
      sco_thread_iteration_timer [of s b e]
    by blast
qed

theorem sco_start_timer_normalized_witness:
  "sint (tv_sec (it_value (sco_start_timer_timeout SCO_LINGER_TIMEOUT))) = 1
   \<and> sint (tv_nsec (it_value (sco_start_timer_timeout SCO_LINGER_TIMEOUT))) = 0
   \<and> sint (tv_sec (it_value (sco_start_timer_timeout SCO_DRAIN_TIMEOUT))) = 0
   \<and> sint (tv_nsec (it_value (sco_start_timer_timeout SCO_DRAIN_TIMEOUT))) = 250000000
   \<and> sint (tv_sec (it_value (sco_start_timer_timeout SCO_CLOSE_TIMEOUT))) = 0
   \<and> sint (tv_nsec (it_value (sco_start_timer_timeout SCO_CLOSE_TIMEOUT))) = 600000000
   \<and> sint (tv_sec (it_value (sco_start_timer_timeout 2500))) = 2
   \<and> sint (tv_nsec (it_value (sco_start_timer_timeout 2500))) = 500000000"
proof -
  have linger: "0 \<le> sint SCO_LINGER_TIMEOUT" "long_mul_defined SCO_LINGER_TIMEOUT 1000000"
    and drain: "0 \<le> sint SCO_DRAIN_TIMEOUT" "long_mul_defined SCO_DRAIN_TIMEOUT 1000000"
    and close: "0 \<le> sint SCO_CLOSE_TIMEOUT" "long_mul_defined SCO_CLOSE_TIMEOUT 1000000"
    and more: "0 \<le> sint (2500 :: long)" "long_mul_defined 2500 1000000"
    by (simp_all add: long_mul_defined_def SCO_LINGER_TIMEOUT_def SCO_DRAIN_TIMEOUT_def
        SCO_CLOSE_TIMEOUT_def)
  from sco_start_timer_normalized [OF linger] sco_start_timer_normalized [OF drain]
    sco_start_timer_normalized [OF close] sco_start_timer_normalized [OF more]
  show ?thesis
    by (simp add: SCO_LINGER_TIMEOUT_def SCO_DRAIN_TIMEOUT_def SCO_CLOSE_TIMEOUT_def)
qed

subsection \<open>The accept loop\<close>

text \<open>
  C4 (as amended).  In the accept loop of a build with \<^verbatim>\<open>ENABLE_MSBC\<close>, for an
  accepted connection whose device and transport were found: \<^verbatim>\<open>BT_VOICE\<close> is
  set to transparent on the new descriptor if and only if the transport's codec
  is mSBC; the 1-byte read is performed whatever the codec is, unless setting
  the voice option failed; when either step fails the new descriptor is closed,
  the transport is not attached, no \<^verbatim>\<open>PING\<close> is sent and the loop goes on;
  otherwise the descriptor is attached and not closed.  Without
  \<^verbatim>\<open>ENABLE_MSBC\<close> neither step exists.
\<close>

theorem sco_dispatcher_accept_voice_and_read:
  assumes "accept_ret e \<noteq> -1" and "device_found e" and "transport_codec e = Some c"
  shows "(Setsockopt_BT_VOICE_TRANSPARENT (accept_ret e) \<in> set (sco_dispatcher_accept en e)
            \<longleftrightarrow> en \<and> c = HFP_CODEC_MSBC)
       \<and> (Read_1_byte (accept_ret e) \<in> set (sco_dispatcher_accept en e)
            \<longleftrightarrow> en \<and> \<not> (c = HFP_CODEC_MSBC \<and> setsockopt_ret e = -1))
       \<and> (en \<and> ((c = HFP_CODEC_MSBC \<and> setsockopt_ret e = -1) \<or> read_ret e = -1) \<longrightarrow>
            Close_fd (accept_ret e) \<in> set (sco_dispatcher_accept en e)
            \<and> Sco_refresh_bt (accept_ret e) \<notin> set (sco_dispatcher_accept en e)
            \<and> Send_signal_spk_pcm BA_TRANSPORT_SIGNAL_PING \<notin> set (sco_dispatcher_accept en e)
            \<and> Send_signal_mic_pcm BA_TRANSPORT_SIGNAL_PING \<notin> set (sco_dispatcher_accept en e))
       \<and> (\<not> (en \<and> ((c = HFP_CODEC_MSBC \<and> setsockopt_ret e = -1) \<or> read_ret e = -1)) \<longrightarrow>
            Sco_refresh_bt (accept_ret e) \<in> set (sco_dispatcher_accept en e)
            \<and> Close_fd (accept_ret e) \<notin> set (sco_dispatcher_accept en e))"
  using assms by (auto simp: sco_dispatcher_accept_def dispatcher_cleanup_def Let_def)

theorem sco_dispatcher_accept_voice_and_read_witness:
  "sco_dispatcher_accept True
     \<lparr>accept_ret = 7, device_found = True, transport_codec = Some HFP_CODEC_MSBC,
      setsockopt_ret = 0, read_ret = -1\<rparr>
   = [Setsockopt_BT_VOICE_TRANSPARENT 7, Read_1_byte 7,
      Dispatcher_error ''Couldn't authorize SCO connection'',
      Ba_device_unref, Ba_transport_unref, Close_fd 7]
   \<and> Close_fd 7 \<in> set (sco_dispatcher_accept True
     \<lparr>accept_ret = 7, device_found = True, transport_codec = Some HFP_CODEC_MSBC,
      setsockopt_ret = 0, read_ret = -1\<rparr>)"
  using sco_dispatcher_accept_voice_and_read
    [of "\<lparr>accept_ret = 7, device_found = True, transport_codec = Some HFP_CODEC_MSBC,
      setsockopt_ret = 0, read_ret = -1\<rparr>" HFP_CODEC_MSBC True]
  by (simp add: sco_dispatcher_accept_def dispatcher_cleanup_def)

text \<open>The claim as stated has the 1-byte read performed only for mSBC.  For a
  CVSD transport the read is performed, and the voice option is not set.\<close>

theorem sco_dispatcher_accept_cvsd_read_counterexample:
  "transport_codec \<lparr>accept_ret = 7, device_found = True, transport_codec = Some HFP_CODEC_CVSD,
      setsockopt_ret = 0, read_ret = 1\<rparr> = Some HFP_CODEC_CVSD
   \<and> Read_1_byte 7 \<in> set (sco_dispatcher_accept True
       \<lparr>accept_ret = 7, device_found = True, transport_codec = Some HFP_CODEC_CVSD,
        setsockopt_ret = 0, read_ret = 1\<rparr>)
   \<and> Setsockopt_BT_VOICE_TRANSPARENT 7 \<notin> set (sco_dispatcher_accept True
       \<lparr>accept_ret = 7, device_found = True, transport_codec = Some HFP_CODEC_CVSD,
        setsockopt_ret = 0, read_ret = 1\<rparr>)"
  by (simp add: sco_dispatcher_accept_def dispatcher_cleanup_def)

subsection \<open>Descriptors after a release\<close>

lemma sco_thread_setup_fds:
  assumes "bt_fd s = -1"
  shows "flow_all (\<lambda>s'. fd (pfds s' 1) = -1 \<and> fd (pfds s' 2) = -1 \<and> fd (pfds s' 3) = -1 \<and> bt_fd s' = -1)
           (sco_thread_setup b e c s)"
proof -
  let ?P = "\<lambda>s'. fd (pfds s' 1) = -1 \<and> fd (pfds s' 2) = -1 \<and> fd (pfds s' 3) = -1 \<and> bt_fd s' = -1"
  have cvsd: "?P (sco_pfds_cvsd s1)" if "?P s1" for s1
    using that by (simp add: sco_pfds_cvsd_def Let_def set_pfd_def)
  have msbc: "?P (sco_pfds_msbc s1)" if "?P s1" for s1
    using that by (simp add: sco_pfds_msbc_def Let_def set_pfd_def)
  have codec: "?P (sco_msbc_encode_decode e s1)" if "?P s1" for s1
    using that by (simp add: sco_msbc_encode_decode_def Let_def warn_def call_def)
  have reset: "?P (sco_pfds_reset s)"
    using assms by (simp add: sco_pfds_reset_def set_pfd_def)
  show ?thesis
    unfolding sco_thread_setup_def Let_def
    using reset cvsd msbc codec
    by (auto simp: error_def call_def)
qed

lemma sco_thread_setup_not_blocked:
  "\<exists>s'. sco_thread_setup b e c s = Next s' \<or> sco_thread_setup b e c s = Fail s'"
  by (simp add: sco_thread_setup_def Let_def)

lemma sco_thread_poll_revents:
  "sco_thread_poll e s = Next s' \<Longrightarrow> fd (pfds s i) < 0 \<Longrightarrow> revents (pfds s' i) = 0"
  by (auto simp: sco_thread_poll_def split: if_splits)

lemma link_frame_refl [simp]: "link_frame s s"
  by (simp add: link_frame_def)

lemma link_frame_trans: "link_frame s s1 \<Longrightarrow> link_frame s1 s2 \<Longrightarrow> link_frame s s2"
  unfolding link_frame_def by auto

lemma link_frame_same:
  "bt_fd s' = bt_fd s \<Longrightarrow> count_list (calls s') Call_release = count_list (calls s) Call_release
   \<Longrightarrow> link_frame s s'"
  by (simp add: link_frame_def)

lemma link_frame_release [simp]: "link_frame s (sco_release_bt s)"
  by (simp add: link_frame_def sco_defs)

lemma flow_all_link_then_do:
  assumes "flow_all (link_frame s) c" and "\<And>s1. flow_all (link_frame s1) (f s1)"
  shows "flow_all (link_frame s) (then_do c f)"
proof (cases c)
  case (Next s1)
  with assms(1) have "link_frame s s1" by simp
  with assms(2) [of s1] have "flow_all (link_frame s) (f s1)"
    by (auto elim: flow_all_mono intro: link_frame_trans)
  with Next show ?thesis by simp
qed (use assms(1) in auto)

lemma sco_read_retry_link: "flow_all (link_frame s) (sco_read_retry b c rs s)"
  by (induction rs) (auto simp: error_def call_def intro!: link_frame_same)

lemma sco_write_retry_link: "flow_all (link_frame s) (sco_write_retry b c rs s)"
  by (induction rs) (auto simp: error_def call_def intro!: link_frame_same)

lemma sco_thread_sco_read_link: "flow_all (link_frame s) (sco_thread_sco_read b e c s)"
proof -
  have "flow_all (link_frame s) (sco_read_retry b c rs (s\<lparr>bt_in := x\<rparr>))" for rs x
    using sco_read_retry_link [of "s\<lparr>bt_in := x\<rparr>" b c rs]
    by (auto elim!: flow_all_mono simp: link_frame_def)
  then show ?thesis
    by (auto simp: sco_thread_sco_read_def sco_read_retry_link)
qed

lemma sco_thread_sco_write_link: "flow_all (link_frame s) (sco_thread_sco_write b e c s)"
  by (simp add: sco_thread_sco_write_def sco_write_retry_link)

lemma sco_thread_pcm_read_link: "flow_all (link_frame s) (sco_thread_pcm_read b e c s)"
  by (auto simp: sco_thread_pcm_read_def Let_def sco_defs intro!: link_frame_same)

lemma sco_thread_pcm_write_link: "flow_all (link_frame s) (sco_thread_pcm_write b e c s)"
  by (auto simp: sco_thread_pcm_write_def Let_def sco_defs intro!: link_frame_same)

lemma sco_thread_pacing_link: "link_frame s (sco_thread_pacing b e c s)"
  by (auto simp: sco_thread_pacing_def Let_def sco_defs intro!: link_frame_same)

lemma sco_thread_io_link: "flow_all (link_frame s) (sco_thread_io b e c s)"
proof -
  have start: "link_frame s (if asrs_frames s = 0 then asrsync_init (spk_pcm_sampling s) s else s)"
    by (auto simp: sco_defs intro!: link_frame_same)
  have "flow_all (link_frame s)
          (sco_thread_sco_read b e c
             (if asrs_frames s = 0 then asrsync_init (spk_pcm_sampling s) s else s))"
    using sco_thread_sco_read_link start
    by (blast intro: flow_all_mono link_frame_trans)
  then show ?thesis
    unfolding sco_thread_io_def
    by (intro flow_all_link_then_do)
       (simp_all add: sco_thread_sco_write_link sco_thread_pcm_read_link
          sco_thread_pcm_write_link sco_thread_pacing_link)
qed

lemma sco_timer_action_link: "flow_all (link_frame s) (sco_timer_action b s)"
  by (cases "sco_state s") (auto simp: sco_timer_action_def sco_defs link_frame_def)

lemma sco_signal_action_link: "flow_all (link_frame s) (sco_signal_action b sig s)"
  by (cases sig) (auto simp: sco_signal_action_def sco_defs link_frame_def)

lemma sco_thread_timer_link: "flow_all (link_frame s) (sco_thread_timer b e s)"
  by (simp add: sco_thread_timer_def sco_timer_action_link) (simp add: sco_defs link_frame_def)

lemma sco_thread_signal_link: "flow_all (link_frame s) (sco_thread_signal b s)"
proof (cases "pipe s")
  case Nil
  then show ?thesis by (simp add: sco_thread_signal_def)
next
  case (Cons sig rest)
  then show ?thesis
    using sco_signal_action_link [of "s\<lparr>pipe := rest\<rparr>" b sig]
    by (auto simp: sco_thread_signal_def link_frame_def elim!: flow_all_mono)
qed

lemma sco_thread_poll_link: "flow_all (link_frame s) (sco_thread_poll e s)"
  by (simp add: sco_thread_poll_def sco_defs link_frame_def)

lemma link_frame_steps [simp]:
  "link_frame s (sco_pfds_reset s') = link_frame s s'"
  "link_frame s (sco_pfds_cvsd s') = link_frame s s'"
  "link_frame s (sco_pfds_msbc s') = link_frame s s'"
  "link_frame s (sco_msbc_encode_decode e s') = link_frame s s'"
  "link_frame s (error msg s') = link_frame s s'"
  "link_frame s (call Call_msbc_init s') = link_frame s s'"
  "link_frame s (s'\<lparr>initialize_msbc := x, msbc := m\<rparr>) = link_frame s s'"
  by (simp_all add: link_frame_def sco_pfds_reset_def sco_pfds_cvsd_def sco_pfds_msbc_def
      sco_msbc_encode_decode_def set_pfd_def Let_def sco_defs)

lemma sco_thread_setup_link: "flow_all (link_frame s) (sco_thread_setup b e c s)"
  by (simp add: sco_thread_setup_unfold)

lemma sco_thread_iteration_link: "flow_all (link_frame s) (sco_thread_iteration b e s)"
  unfolding sco_thread_iteration_def sco_thread_after_signal_def
  by (intro flow_all_link_then_do)
     (simp_all add: sco_thread_setup_link sco_thread_poll_link sco_thread_signal_link
        sco_thread_timer_link sco_thread_io_link)

text \<open>
  C2.  \<open>release()\<close> leaves \<open>bt_fd\<close> at -1; an iteration in which \<open>release()\<close>
  was called ends with \<open>bt_fd = -1\<close> (nothing in the loop body sets \<open>bt_fd\<close>
  otherwise); and an iteration that starts with
  \<open>bt_fd = -1\<close> comes out of the choice of descriptors, in the CVSD arm as well
  as in the mSBC arm and whatever the buffers hold, with descriptor -1 in the
  poll entries 1 (SCO read), 2 (SCO write) and 3 (speaker PCM); \<^verbatim>\<open>poll\<close> then
  reports no event for them.  (The iteration can also end before \<^verbatim>\<open>poll\<close>, when
  \<^verbatim>\<open>msbc_init\<close> fails; the three entries are -1 then, too.)  Only the
  dispatcher's \<^verbatim>\<open>sco_refresh_bt\<close> gives \<open>bt_fd\<close> another value; it is not part
  of the loop.
\<close>

theorem sco_thread_release_disables_poll:
  assumes "bt_fd s = -1"
  shows "bt_fd (sco_release_bt u) = -1
       \<and> flow_all (link_frame u) (sco_thread_iteration b ev u)
       \<and> (\<exists>s'. (sco_thread_setup b e c s = Next s' \<or> sco_thread_setup b e c s = Fail s')
             \<and> fd (pfds s' 1) = -1 \<and> fd (pfds s' 2) = -1 \<and> fd (pfds s' 3) = -1
             \<and> (\<forall>s''. sco_thread_poll e s' = Next s'' \<longrightarrow>
                   revents (pfds s'' 1) = 0 \<and> revents (pfds s'' 2) = 0 \<and> revents (pfds s'' 3) = 0))"
proof -
  have rel: "bt_fd (sco_release_bt u) = -1"
    by (simp add: sco_defs)
  obtain s' where s': "sco_thread_setup b e c s = Next s' \<or> sco_thread_setup b e c s = Fail s'"
    using sco_thread_setup_not_blocked by blast
  from sco_thread_setup_fds [OF assms, of b e c] s'
  have fds: "fd (pfds s' 1) = -1" "fd (pfds s' 2) = -1" "fd (pfds s' 3) = -1"
    by auto
  have "revents (pfds s'' i) = 0" if "sco_thread_poll e s' = Next s''" and "fd (pfds s' i) = -1" for s'' i
    using sco_thread_poll_revents [OF that(1), of i] that(2) by simp
  with rel s' fds sco_thread_iteration_link [of u b ev] show ?thesis by blast
qed

theorem sco_thread_release_disables_poll_witness:
  "bt_fd (sco_release_bt (scenario_transport HFP_CODEC_MSBC 8)) = -1
   \<and> (case sco_thread_setup scenario_build (scenario_env (\<lambda>i. POLLIN)) HFP_CODEC_MSBC
              (sco_release_bt (scenario_transport HFP_CODEC_MSBC 8))
       of Next s' \<Rightarrow> map (\<lambda>i. fd (pfds s' i)) [0, 1, 2, 3, 4, 5] = [3, -1, -1, -1, -1, 4]
        | _ \<Rightarrow> False)"
proof -
  have down: "bt_fd (sco_release_bt (scenario_transport HFP_CODEC_MSBC 8)) = -1"
    by (simp add: sco_defs)
  from sco_thread_release_disables_poll [OF down,
      where u = "scenario_transport HFP_CODEC_MSBC 8" and b = scenario_build
        and e = "scenario_env (\<lambda>i. POLLIN)" and c = HFP_CODEC_MSBC]
  show ?thesis
    by (simp add: scenario_defs sco_defs sco_thread_setup_unfold msbc_arm_def msbc_init_def
        sco_pfds_msbc_def sco_msbc_encode_decode_def sco_pfds_reset_def set_pfd_def
        msbc_encode.simps msbc_decode.simps ffb_rewind_def ffb_len_out_def ffb_len_in_def
        ffb_blen_in_def ffb_blen_out_def MSBC_CODESAMPLES_def MSBC_FRAMELEN_def Let_def)
qed

subsection \<open>Reading from the SCO socket\<close>

text \<open>
  C8 (as amended).  When the SCO read block runs (\<^verbatim>\<open>POLLIN\<close> on entry 1): in
  the CVSD arm with the microphone PCM closed, \<open>bt_in\<close> is rewound before the
  read; in the mSBC arm nothing is rewound, \<open>dec_data\<close> goes into the read as
  it is; in both arms a read that returned \<open>len > 0\<close> is followed by
  \<open>seek(len)\<close> on the arm's input buffer if the microphone PCM is open, and
  by nothing otherwise, so that the data is dropped.
\<close>

theorem sco_read_rewind_and_seek:
  assumes "revents (pfds s 1) AND POLLIN \<noteq> 0"
  shows "(\<not> msbc_arm b c \<and> mic_pcm_fd s = -1 \<longrightarrow>
            sco_thread_sco_read b e c s
              = sco_read_retry b c (sco_read e) (s\<lparr>bt_in := ffb_rewind (bt_in s)\<rparr>))
       \<and> (msbc_arm b c \<or> mic_pcm_fd s \<noteq> -1 \<longrightarrow>
            sco_thread_sco_read b e c s = sco_read_retry b c (sco_read e) s)
       \<and> (0 < ret r \<and> mic_pcm_fd s \<noteq> -1 \<and> \<not> msbc_arm b c \<longrightarrow>
            sco_read_retry b c (r # rs) s
              = Next (s\<lparr>bt_in := ffb_seek (bt_in s) (to_size_t (ret r))\<rparr>))
       \<and> (0 < ret r \<and> mic_pcm_fd s \<noteq> -1 \<and> msbc_arm b c \<longrightarrow>
            sco_read_retry b c (r # rs) s
              = Next (s\<lparr>msbc := (msbc s)\<lparr>dec_data :=
                         ffb_seek (dec_data (msbc s)) (to_size_t (ret r))\<rparr>\<rparr>))
       \<and> (0 < ret r \<and> mic_pcm_fd s = -1 \<longrightarrow> sco_read_retry b c (r # rs) s = Next s)"
  using assms by (simp add: sco_thread_sco_read_def)

theorem sco_read_rewind_and_seek_witness:
  "(case sco_thread_sco_read scenario_build (scenario_env (\<lambda>i. 0)) HFP_CODEC_CVSD
        ((scenario_transport HFP_CODEC_CVSD 8)
        \<lparr>mic_pcm_fd := -1, bt_in := ffb_seek (ffb_init_uint8_t 0 128) 10,
         pfds := (\<lambda>i. \<lparr>fd = 10, events = POLLIN, revents = POLLIN\<rparr>)\<rparr>)
     of Next s' \<Rightarrow> bt_in s' = ffb_init_uint8_t 0 128 | _ \<Rightarrow> False)
   \<and> (case sco_thread_sco_read scenario_build (scenario_env (\<lambda>i. 0)) HFP_CODEC_CVSD
        ((scenario_transport HFP_CODEC_CVSD 8)
        \<lparr>bt_in := ffb_seek (ffb_init_uint8_t 0 128) 10,
         pfds := (\<lambda>i. \<lparr>fd = 10, events = POLLIN, revents = POLLIN\<rparr>)\<rparr>)
     of Next s' \<Rightarrow> bt_in s' = ffb_seek (ffb_init_uint8_t 0 128) 58 | _ \<Rightarrow> False)"
proof -
  have ready: "revents (pfds ((scenario_transport HFP_CODEC_CVSD 8)
        \<lparr>mic_pcm_fd := -1, bt_in := ffb_seek (ffb_init_uint8_t 0 128) 10,
         pfds := (\<lambda>i. \<lparr>fd = 10, events = POLLIN, revents = POLLIN\<rparr>)\<rparr>) 1) AND POLLIN \<noteq> 0"
    by (simp add: POLLIN_def)
  from sco_read_rewind_and_seek [OF ready, of scenario_build HFP_CODEC_CVSD
      "scenario_env (\<lambda>i. 0)" "\<lparr>ret = 48, err = 0\<rparr>" "[]"]
  show ?thesis
    by (simp add: scenario_defs sco_thread_sco_read_def msbc_arm_def POLLIN_def
        ffb_seek_def ffb_rewind_def to_size_t_def)
qed

text \<open>The claim as stated has the mSBC arm rewind its input buffer, too.  With
  codec mSBC, the microphone closed and ten bytes in \<open>dec_data\<close>, the ten bytes
  are still there after the block.\<close>

theorem sco_read_msbc_no_rewind_counterexample:
  "msbc_arm scenario_build HFP_CODEC_MSBC
   \<and> (case sco_thread_sco_read scenario_build (scenario_env (\<lambda>i. 0)) HFP_CODEC_MSBC
        ((scenario_transport HFP_CODEC_MSBC 8)
        \<lparr>mic_pcm_fd := -1,
         msbc := (msbc_fresh scenario_build)\<lparr>dec_data := ffb_seek (dec_data (msbc_fresh scenario_build)) 10\<rparr>,
         pfds := (\<lambda>i. \<lparr>fd = 10, events = POLLIN, revents = POLLIN\<rparr>)\<rparr>)
       of Next s' \<Rightarrow> tail (dec_data (msbc s')) = 10 \<and> dec_data (msbc s') \<noteq> ffb_rewind (dec_data (msbc s'))
        | _ \<Rightarrow> False)"
  by (simp add: sco_thread_sco_read_def scenario_transport_def scenario_build_def scenario_env_def
      sco_thread_enter_def msbc_arm_def POLLIN_def ffb_seek_def ffb_rewind_def)

subsection \<open>Writing to the microphone PCM\<close>

lemma ffb_len_out_shift_0 [simp]: "ffb_len_out (ffb_shift bf 0) = ffb_len_out bf"
  by (simp add: ffb_shift_def ffb_len_out_def Let_def)

lemma size_t_0 [simp]: "to_size_t 0 = 0" "samples_bytes 0 = 0"
  by (simp_all add: to_size_t_def samples_bytes_def)

text \<open>
  C5 (as amended).  When the microphone PCM write block runs (\<^verbatim>\<open>POLLOUT\<close> on
  entry 4): if \<^verbatim>\<open>ba_transport_pcm_write\<close> returns 0, a \<^verbatim>\<open>PCM_CLOSE\<close> signal is
  sent to the thread itself, nothing is logged and the input buffer is shifted
  by 0; if it returns -1, \<^verbatim>\<open>FIFO write error\<close> is logged whatever \<^verbatim>\<open>errno\<close> is
  (\<^verbatim>\<open>EAGAIN\<close> included) and no signal is sent; if it returns a positive number
  of samples, the input buffer is shifted by them (times two bytes in the CVSD
  arm).  In every case the block falls through to the pacing: the iteration is
  not cut short.
\<close>

theorem sco_pcm_write_policy:
  assumes "revents (pfds s 4) AND POLLOUT \<noteq> 0"
  shows "(ret (pcm_write e) = 0 \<longrightarrow>
            sco_thread_pcm_write b e c s
              = Next (let s' = ba_transport_thread_send_signal BA_TRANSPORT_SIGNAL_PCM_CLOSE s in
                      if msbc_arm b c
                      then s'\<lparr>msbc := (msbc s')\<lparr>dec_pcm := ffb_shift (dec_pcm (msbc s')) 0\<rparr>\<rparr>
                      else s'\<lparr>bt_in := ffb_shift (bt_in s') 0\<rparr>))
       \<and> (ret (pcm_write e) = -1 \<longrightarrow>
            (\<exists>s'. sco_thread_pcm_write b e c s = Next s'
                 \<and> calls s' = calls s @ [Call_error ''FIFO write error'']
                 \<and> pipe s' = pipe s))
       \<and> (0 < ret (pcm_write e) \<longrightarrow>
            sco_thread_pcm_write b e c s
              = Next (if msbc_arm b c
                      then s\<lparr>msbc := (msbc s)\<lparr>dec_pcm :=
                             ffb_shift (dec_pcm (msbc s)) (to_size_t (ret (pcm_write e)))\<rparr>\<rparr>
                      else s\<lparr>bt_in := ffb_shift (bt_in s) (samples_bytes (ret (pcm_write e)))\<rparr>))"
  using assms by (auto simp: sco_thread_pcm_write_def Let_def sco_defs)

theorem sco_pcm_write_policy_witness:
  "(case sco_thread_pcm_write scenario_build
           ((scenario_env (\<lambda>i. 0)) \<lparr>pcm_write := \<lparr>ret = 0, err = 0\<rparr>\<rparr>) HFP_CODEC_CVSD
           ((scenario_transport HFP_CODEC_CVSD 8)
          \<lparr>bt_in := ffb_seek (ffb_init_uint8_t 0 128) 48,
           pfds := (\<lambda>i. \<lparr>fd = 12, events = POLLOUT, revents = POLLOUT\<rparr>)\<rparr>)
       of Next s' \<Rightarrow> calls s' = [Call_send_signal BA_TRANSPORT_SIGNAL_PCM_CLOSE]
                     \<and> pipe s' = [BA_TRANSPORT_SIGNAL_PCM_CLOSE]
                     \<and> bt_in s' = ffb_seek (ffb_init_uint8_t 0 128) 48
        | _ \<Rightarrow> False)"
proof -
  have ready: "revents (pfds ((scenario_transport HFP_CODEC_CVSD 8)
          \<lparr>bt_in := ffb_seek (ffb_init_uint8_t 0 128) 48,
           pfds := (\<lambda>i. \<lparr>fd = 12, events = POLLOUT, revents = POLLOUT\<rparr>)\<rparr>) 4) AND POLLOUT \<noteq> 0"
    by (simp add: POLLOUT_def)
  from sco_pcm_write_policy [OF ready, of "(scenario_env (\<lambda>i. 0)) \<lparr>pcm_write := \<lparr>ret = 0, err = 0\<rparr>\<rparr>"
      scenario_build HFP_CODEC_CVSD]
  show ?thesis
    by (simp add: scenario_defs msbc_arm_def sco_defs ffb_seek_def ffb_shift_def ffb_len_out_def Let_def)
qed

text \<open>The claim as stated has \<^verbatim>\<open>EAGAIN\<close> pass without a log entry and the
  buffer untouched after a failed write.  With a return of -1 and \<^verbatim>\<open>EAGAIN\<close>
  the error is logged, and \<^verbatim>\<open>ffb_shift\<close> is still called, with
  \<^verbatim>\<open>(size_t)-1 * 2\<close>, which moves the head.\<close>

theorem sco_pcm_write_eagain_counterexample:
  "err (pcm_write ((scenario_env (\<lambda>i. 0)) \<lparr>pcm_write := \<lparr>ret = -1, err = EAGAIN\<rparr>\<rparr>)) = EAGAIN
   \<and> head (bt_in ((scenario_transport HFP_CODEC_CVSD 8)
          \<lparr>bt_in := ffb_seek (ffb_init_uint8_t 0 128) 48,
           pfds := (\<lambda>i. \<lparr>fd = 12, events = POLLOUT, revents = POLLOUT\<rparr>)\<rparr>)) = 0
   \<and> (case sco_thread_pcm_write scenario_build
           ((scenario_env (\<lambda>i. 0)) \<lparr>pcm_write := \<lparr>ret = -1, err = EAGAIN\<rparr>\<rparr>) HFP_CODEC_CVSD
           ((scenario_transport HFP_CODEC_CVSD 8)
          \<lparr>bt_in := ffb_seek (ffb_init_uint8_t 0 128) 48,
           pfds := (\<lambda>i. \<lparr>fd = 12, events = POLLOUT, revents = POLLOUT\<rparr>)\<rparr>)
       of Next s' \<Rightarrow> calls s' = [Call_error ''FIFO write error'']
                     \<and> head (bt_in s') = 18446744073709551614
        | _ \<Rightarrow> False)"
  by (simp add: sco_thread_pcm_write_def scenario_transport_def scenario_build_def scenario_env_def
      sco_thread_enter_def msbc_arm_def POLLOUT_def ffb_seek_def ffb_shift_def ffb_init_uint8_t_def
      ffb_len_out_def samples_bytes_def sco_defs Let_def)

subsection \<open>What the data blocks leave alone\<close>

lemma io_frame_refl [simp]: "io_frame s s"
  unfolding io_frame_def by (simp add: exI [of _ 0])

lemma io_frame_trans: "io_frame s s1 \<Longrightarrow> io_frame s1 s2 \<Longrightarrow> io_frame s s2"
  unfolding io_frame_def by (auto simp: replicate_add [symmetric] simp del: replicate_add)

lemma io_frame_call [simp]: "io_frame s (call x s)"
  unfolding io_frame_def by (simp add: call_def exI [of _ 0])

lemma io_frame_send [simp]:
  "io_frame s (ba_transport_thread_send_signal BA_TRANSPORT_SIGNAL_PCM_CLOSE s)"
  unfolding io_frame_def by (simp add: sco_defs exI [of _ 1])

lemma io_frame_fields:
  "sco_state s' = sco_state s \<Longrightarrow> initialize_msbc s' = initialize_msbc s \<Longrightarrow> pipe s' = pipe s
   \<Longrightarrow> io_frame s s'"
  unfolding io_frame_def by (simp add: exI [of _ 0])

lemma flow_all_frame_then_do:
  assumes "flow_all (io_frame s) c" and "\<And>s1. flow_all (io_frame s1) (f s1)"
  shows "flow_all (io_frame s) (then_do c f)"
proof (cases c)
  case (Next s1)
  with assms(1) have "io_frame s s1" by simp
  with assms(2) [of s1] have "flow_all (io_frame s) (f s1)"
    by (auto elim: flow_all_mono intro: io_frame_trans)
  with Next show ?thesis by simp
qed (use assms(1) in auto)

lemma sco_read_retry_frame:
  "flow_all (io_frame s) (sco_read_retry b c rs s) \<and> flow_alive (sco_read_retry b c rs s)"
  by (induction rs) (auto simp: sco_defs intro!: io_frame_fields)

lemma sco_write_retry_frame:
  "flow_all (io_frame s) (sco_write_retry b c rs s) \<and> flow_alive (sco_write_retry b c rs s)"
  by (induction rs) (auto simp: sco_defs intro!: io_frame_fields)

lemma sco_thread_sco_read_frame:
  "flow_all (io_frame s) (sco_thread_sco_read b e c s) \<and> flow_alive (sco_thread_sco_read b e c s)"
proof -
  have "flow_all (io_frame s) (sco_read_retry b c rs (s\<lparr>bt_in := x\<rparr>))" for rs x
    using sco_read_retry_frame [of "s\<lparr>bt_in := x\<rparr>" b c rs]
    by (auto elim!: flow_all_mono simp: io_frame_def)
  then show ?thesis
    using sco_read_retry_frame [of s b c "sco_read e"]
    by (auto simp: sco_thread_sco_read_def sco_read_retry_frame sco_defs intro!: io_frame_fields)
qed

lemma sco_thread_sco_write_frame:
  "flow_all (io_frame s) (sco_thread_sco_write b e c s) \<and> flow_alive (sco_thread_sco_write b e c s)"
  by (simp add: sco_thread_sco_write_def sco_write_retry_frame)

lemma sco_thread_pcm_read_frame:
  "flow_all (io_frame s) (sco_thread_pcm_read b e c s) \<and> flow_alive (sco_thread_pcm_read b e c s)"
  unfolding io_frame_def
  by (auto simp: sco_thread_pcm_read_def Let_def sco_defs exI [of _ 0] exI [of _ 1])

lemma sco_thread_pcm_write_frame:
  "flow_all (io_frame s) (sco_thread_pcm_write b e c s) \<and> flow_alive (sco_thread_pcm_write b e c s)"
  unfolding io_frame_def
  by (auto simp: sco_thread_pcm_write_def Let_def sco_defs exI [of _ 0] exI [of _ 1])

lemma sco_thread_pacing_frame: "io_frame s (sco_thread_pacing b e c s)"
  by (auto simp: sco_thread_pacing_def Let_def sco_defs intro!: io_frame_fields)

lemma sco_thread_io_frame: "flow_all (io_frame s) (sco_thread_io b e c s)"
proof -
  have start: "io_frame s (if asrs_frames s = 0 then asrsync_init (spk_pcm_sampling s) s else s)"
    by (auto simp: sco_defs intro!: io_frame_fields)
  have "flow_all (io_frame s)
          (sco_thread_sco_read b e c
             (if asrs_frames s = 0 then asrsync_init (spk_pcm_sampling s) s else s))"
    using sco_thread_sco_read_frame start
    by (blast intro: flow_all_mono io_frame_trans)
  then show ?thesis
    unfolding sco_thread_io_def
    by (intro flow_all_frame_then_do)
       (simp_all add: sco_thread_sco_write_frame sco_thread_pcm_read_frame
          sco_thread_pcm_write_frame sco_thread_pacing_frame)
qed

lemma sco_thread_io_alive: "flow_alive (sco_thread_io b e c s)"
  unfolding sco_thread_io_def
  by (intro flow_alive_then_do)
     (simp_all add: sco_thread_sco_read_frame sco_thread_sco_write_frame
        sco_thread_pcm_read_frame sco_thread_pcm_write_frame)

subsection \<open>Errors on the SCO socket\<close>

lemma sco_retry_eintr_many:
  "sco_read_retry b c (replicate n \<lparr>ret = -1, err = EINTR\<rparr> @ rs) s = sco_read_retry b c rs s
   \<and> sco_write_retry b c (replicate n \<lparr>ret = -1, err = EINTR\<rparr> @ rs) s
       = sco_write_retry b c rs s"
  by (induction n) (simp_all add: errno_after_def)

lemma sco_step_eintr_many:
  "sco_read e = replicate n \<lparr>ret = -1, err = EINTR\<rparr> @ rs \<Longrightarrow>
     sco_thread_sco_read b e c s = sco_thread_sco_read b (e\<lparr>sco_read := rs\<rparr>) c s"
  "sco_write e = replicate n \<lparr>ret = -1, err = EINTR\<rparr> @ rs \<Longrightarrow>
     sco_thread_sco_write b e c s = sco_thread_sco_write b (e\<lparr>sco_write := rs\<rparr>) c s"
  using sco_retry_eintr_many [of b c n rs]
  by (simp_all add: sco_thread_sco_read_def sco_thread_sco_write_def)

lemma sco_thread_sco_read_failed:
  assumes "ret r \<le> 0" and "revents (pfds s 1) AND POLLIN \<noteq> 0" and "sco_read e = r # rs"
  shows "sco_thread_sco_read b e c s =
          (if errno_after r = EINTR then sco_thread_sco_read b (e\<lparr>sco_read := rs\<rparr>) c s
           else if errno_after r = 0 \<or> errno_after r = ECONNABORTED \<or> errno_after r = ECONNRESET
           then Continue (sco_release_bt
                  (if \<not> msbc_arm b c \<and> mic_pcm_fd s = -1 then s\<lparr>bt_in := ffb_rewind (bt_in s)\<rparr> else s))
           else Continue (error ''SCO read error''
                  (if \<not> msbc_arm b c \<and> mic_pcm_fd s = -1 then s\<lparr>bt_in := ffb_rewind (bt_in s)\<rparr> else s)))"
  using assms by (simp add: sco_thread_sco_read_def)

lemma sco_thread_sco_write_failed:
  assumes "ret r \<le> 0" and "revents (pfds s 2) AND POLLOUT \<noteq> 0" and "sco_write e = r # rs"
  shows "sco_thread_sco_write b e c s =
          (if errno_after r = EINTR then sco_thread_sco_write b (e\<lparr>sco_write := rs\<rparr>) c s
           else if errno_after r = 0 \<or> errno_after r = ECONNABORTED \<or> errno_after r = ECONNRESET
           then Continue (sco_release_bt s)
           else Continue (error ''SCO write error'' s))"
  using assms by (simp add: sco_thread_sco_write_def)

lemma sco_thread_io_skips:
  "sco_thread_sco_read b e c
      (if asrs_frames s = 0 then asrsync_init (spk_pcm_sampling s) s else s) = Continue x
   \<or> (sco_thread_sco_read b e c
      (if asrs_frames s = 0 then asrsync_init (spk_pcm_sampling s) s else s) = Next s1
     \<and> sco_thread_sco_write b e c s1 = Continue x)
   \<Longrightarrow> sco_thread_io b e c s = Continue x"
  by (auto simp add: sco_thread_io_def)

lemma sco_thread_iteration_skips:
  "sco_thread_setup b e (codec s) s = Next s1 \<Longrightarrow> sco_thread_poll e s1 = Next s2
   \<Longrightarrow> sco_thread_signal b s2 = Next s3 \<Longrightarrow> sco_thread_timer b e s3 = Next s4
   \<Longrightarrow> sco_thread_io b e (codec s) s4 = Continue x
   \<Longrightarrow> sco_thread_iteration b e s = Continue x"
  by (simp add: sco_thread_iteration_def sco_thread_after_signal_def)

text \<open>
  C3 (as amended).  For the \<^verbatim>\<open>read\<close> and the \<^verbatim>\<open>write\<close> on the SCO socket, when
  the block runs (\<^verbatim>\<open>POLLIN\<close> on entry 1, \<^verbatim>\<open>POLLOUT\<close> on entry 2) and the call
  returns 0 or less: with \<^verbatim>\<open>EINTR\<close> the call is repeated in place, any number
  of times; with a return of 0 (\<^verbatim>\<open>errno\<close> still 0), or \<^verbatim>\<open>ECONNABORTED\<close> or
  \<^verbatim>\<open>ECONNRESET\<close>, \<open>release()\<close> is called once and the block ends with
  \<^verbatim>\<open>continue\<close>; with any other error the error is logged and the block ends
  with \<^verbatim>\<open>continue\<close> as well.  In both cases the rest of the iteration (the
  later data blocks and the pacing) is skipped, the iteration ends and the loop
  goes on with the next wake-up; neither block ever jumps to \<^verbatim>\<open>fail\<close>.  A
  release changes \<open>bt_fd\<close> and adds one \<open>release()\<close> call, a logged error
  adds the log entry, nothing else.  The state they start from is the state at
  the block's entry, with one exception: the read block of the CVSD arm has
  rewound \<open>bt_in\<close> before the read when the microphone PCM is closed.
\<close>

theorem sco_socket_error_policy:
  assumes "ret r \<le> 0"
  shows "(revents (pfds s 1) AND POLLIN \<noteq> 0 \<and> sco_read e = r # rs \<longrightarrow>
            sco_thread_sco_read b e c s =
              (if errno_after r = EINTR then sco_thread_sco_read b (e\<lparr>sco_read := rs\<rparr>) c s
               else if errno_after r = 0 \<or> errno_after r = ECONNABORTED
                       \<or> errno_after r = ECONNRESET
               then Continue (sco_release_bt
                      (if \<not> msbc_arm b c \<and> mic_pcm_fd s = -1
                       then s\<lparr>bt_in := ffb_rewind (bt_in s)\<rparr> else s))
               else Continue (error ''SCO read error''
                      (if \<not> msbc_arm b c \<and> mic_pcm_fd s = -1
                       then s\<lparr>bt_in := ffb_rewind (bt_in s)\<rparr> else s))))
       \<and> (revents (pfds s 2) AND POLLOUT \<noteq> 0 \<and> sco_write e = r # rs \<longrightarrow>
            sco_thread_sco_write b e c s =
              (if errno_after r = EINTR then sco_thread_sco_write b (e\<lparr>sco_write := rs\<rparr>) c s
               else if errno_after r = 0 \<or> errno_after r = ECONNABORTED
                       \<or> errno_after r = ECONNRESET
               then Continue (sco_release_bt s)
               else Continue (error ''SCO write error'' s)))
       \<and> (sco_read e = replicate n \<lparr>ret = -1, err = EINTR\<rparr> @ rs \<longrightarrow>
            sco_thread_sco_read b e c s = sco_thread_sco_read b (e\<lparr>sco_read := rs\<rparr>) c s)
       \<and> (sco_write e = replicate n \<lparr>ret = -1, err = EINTR\<rparr> @ rs \<longrightarrow>
            sco_thread_sco_write b e c s = sco_thread_sco_write b (e\<lparr>sco_write := rs\<rparr>) c s)
       \<and> (sco_thread_sco_read b e c
              (if asrs_frames s = 0 then asrsync_init (spk_pcm_sampling s) s else s) = Continue x
            \<or> (sco_thread_sco_read b e c
              (if asrs_frames s = 0 then asrsync_init (spk_pcm_sampling s) s else s) = Next s1
               \<and> sco_thread_sco_write b e c s1 = Continue x) \<longrightarrow>
            sco_thread_io b e c s = Continue x)
       \<and> (sco_thread_setup b e (codec u) u = Next u1 \<and> sco_thread_poll e u1 = Next u2
            \<and> sco_thread_signal b u2 = Next u3 \<and> sco_thread_timer b e u3 = Next u4
            \<and> sco_thread_io b e (codec u) u4 = Continue x \<longrightarrow>
            sco_thread_iteration b e u = Continue x
            \<and> sco_thread_loop b (e # es) u = sco_thread_loop b es x)
       \<and> flow_alive (sco_thread_sco_read b e c s)
       \<and> flow_alive (sco_thread_sco_write b e c s)
       \<and> calls (sco_release_bt s) = calls s @ [Call_release]
       \<and> bt_fd (sco_release_bt s) = -1
       \<and> (sco_release_bt s)\<lparr>bt_fd := bt_fd s, calls := calls s\<rparr> = s
       \<and> calls (error msg s) = calls s @ [Call_error msg]
       \<and> (error msg s)\<lparr>calls := calls s\<rparr> = s
       \<and> (ret r = 0 \<longrightarrow> errno_after r = 0)"
proof -
  have rd: "sco_thread_sco_read b e c s =
              (if errno_after r = EINTR then sco_thread_sco_read b (e\<lparr>sco_read := rs\<rparr>) c s
               else if errno_after r = 0 \<or> errno_after r = ECONNABORTED
                       \<or> errno_after r = ECONNRESET
               then Continue (sco_release_bt
                      (if \<not> msbc_arm b c \<and> mic_pcm_fd s = -1
                       then s\<lparr>bt_in := ffb_rewind (bt_in s)\<rparr> else s))
               else Continue (error ''SCO read error''
                      (if \<not> msbc_arm b c \<and> mic_pcm_fd s = -1
                       then s\<lparr>bt_in := ffb_rewind (bt_in s)\<rparr> else s)))"
    if "revents (pfds s 1) AND POLLIN \<noteq> 0" and "sco_read e = r # rs"
    using sco_thread_sco_read_failed [OF assms that] .
  have wr: "sco_thread_sco_write b e c s =
              (if errno_after r = EINTR then sco_thread_sco_write b (e\<lparr>sco_write := rs\<rparr>) c s
               else if errno_after r = 0 \<or> errno_after r = ECONNABORTED
                       \<or> errno_after r = ECONNRESET
               then Continue (sco_release_bt s)
               else Continue (error ''SCO write error'' s))"
    if "revents (pfds s 2) AND POLLOUT \<noteq> 0" and "sco_write e = r # rs"
    using sco_thread_sco_write_failed [OF assms that] .
  have io: "sco_thread_io b e c s = Continue x"
    if "sco_thread_sco_read b e c
              (if asrs_frames s = 0 then asrsync_init (spk_pcm_sampling s) s else s) = Continue x
            \<or> (sco_thread_sco_read b e c
              (if asrs_frames s = 0 then asrsync_init (spk_pcm_sampling s) s else s) = Next s1
               \<and> sco_thread_sco_write b e c s1 = Continue x)"
    using that by (rule sco_thread_io_skips)
  have it: "sco_thread_iteration b e u = Continue x
            \<and> sco_thread_loop b (e # es) u = sco_thread_loop b es x"
    if "sco_thread_setup b e (codec u) u = Next u1" "sco_thread_poll e u1 = Next u2"
       "sco_thread_signal b u2 = Next u3" "sco_thread_timer b e u3 = Next u4"
       "sco_thread_io b e (codec u) u4 = Continue x"
    using sco_thread_iteration_skips [OF that] by simp
  have facts: "calls (sco_release_bt s) = calls s @ [Call_release]"
    "bt_fd (sco_release_bt s) = -1"
    "(sco_release_bt s)\<lparr>bt_fd := bt_fd s, calls := calls s\<rparr> = s"
    "calls (error msg s) = calls s @ [Call_error msg]"
    "(error msg s)\<lparr>calls := calls s\<rparr> = s"
    by (simp_all add: sco_defs)
  have zero: "ret r = 0 \<longrightarrow> errno_after r = 0"
    by (simp add: errno_after_def)
  show ?thesis
    using rd wr io it facts zero sco_step_eintr_many [of e n rs b c s]
      sco_thread_sco_read_frame [of s b e c] sco_thread_sco_write_frame [of s b e c]
    by blast
qed

theorem sco_socket_error_policy_witness:
  "(case sco_thread_iteration scenario_build
          ((scenario_env (\<lambda>i. if i = 1 then POLLIN else 0))
             \<lparr>sco_read := [\<lparr>ret = -1, err = EINTR\<rparr>, \<lparr>ret = -1, err = ECONNRESET\<rparr>]\<rparr>)
          (scenario_transport HFP_CODEC_CVSD 8)
    of Continue s' \<Rightarrow> bt_fd s' = -1 \<and> calls s' = [Call_asrsync_init 8000, Call_release]
     | _ \<Rightarrow> False)
   \<and> sco_thread_sco_read scenario_build
        ((scenario_env (\<lambda>i. POLLIN))\<lparr>sco_read := [\<lparr>ret = -1, err = ECONNRESET\<rparr>]\<rparr>)
        HFP_CODEC_CVSD
        ((scenario_transport HFP_CODEC_CVSD 8)
           \<lparr>mic_pcm_fd := -1, pfds := (\<lambda>i. \<lparr>fd = 10, events = POLLIN, revents = POLLIN\<rparr>)\<rparr>)
     = Continue (sco_release_bt
        ((scenario_transport HFP_CODEC_CVSD 8)
           \<lparr>mic_pcm_fd := -1, pfds := (\<lambda>i. \<lparr>fd = 10, events = POLLIN, revents = POLLIN\<rparr>),
            bt_in := ffb_rewind (ffb_init_uint8_t 0 128)\<rparr>))
   \<and> sco_thread_sco_write scenario_build
        ((scenario_env (\<lambda>i. POLLOUT))\<lparr>sco_write := [\<lparr>ret = -1, err = 5\<rparr>]\<rparr>)
        HFP_CODEC_MSBC
        ((scenario_transport HFP_CODEC_MSBC 8)
           \<lparr>pfds := (\<lambda>i. \<lparr>fd = 10, events = POLLOUT, revents = POLLOUT\<rparr>)\<rparr>)
     = Continue (error ''SCO write error''
        ((scenario_transport HFP_CODEC_MSBC 8)
           \<lparr>pfds := (\<lambda>i. \<lparr>fd = 10, events = POLLOUT, revents = POLLOUT\<rparr>)\<rparr>))"
proof -
  let ?er = "(scenario_env (\<lambda>i. POLLIN))\<lparr>sco_read := [\<lparr>ret = -1, err = ECONNRESET\<rparr>]\<rparr>"
  let ?sr = "(scenario_transport HFP_CODEC_CVSD 8)
           \<lparr>mic_pcm_fd := -1, pfds := (\<lambda>i. \<lparr>fd = 10, events = POLLIN, revents = POLLIN\<rparr>)\<rparr>"
  let ?ew = "(scenario_env (\<lambda>i. POLLOUT))\<lparr>sco_write := [\<lparr>ret = -1, err = 5\<rparr>]\<rparr>"
  let ?sw = "(scenario_transport HFP_CODEC_MSBC 8)
           \<lparr>pfds := (\<lambda>i. \<lparr>fd = 10, events = POLLOUT, revents = POLLOUT\<rparr>)\<rparr>"
  have neg: "ret \<lparr>ret = -1, err = ECONNRESET\<rparr> \<le> 0" "ret \<lparr>ret = -1, err = 5\<rparr> \<le> 0"
    by simp_all
  have rd: "revents (pfds ?sr 1) AND POLLIN \<noteq> 0 \<and> sco_read ?er = [\<lparr>ret = -1, err = ECONNRESET\<rparr>]"
    by (simp add: POLLIN_def)
  have wr: "revents (pfds ?sw 2) AND POLLOUT \<noteq> 0 \<and> sco_write ?ew = [\<lparr>ret = -1, err = 5\<rparr>]"
    by (simp add: POLLOUT_def)
  from sco_socket_error_policy [OF neg(1), where b = scenario_build and c = HFP_CODEC_CVSD
      and e = ?er and rs = "[]" and s = ?sr, THEN conjunct1, THEN mp, OF rd]
  have one: "sco_thread_sco_read scenario_build ?er HFP_CODEC_CVSD ?sr
      = Continue (sco_release_bt (?sr\<lparr>bt_in := ffb_rewind (ffb_init_uint8_t 0 128)\<rparr>))"
    by (simp add: errno_after_def EINTR_def ECONNRESET_def msbc_arm_def scenario_defs)
  from sco_socket_error_policy [OF neg(2), where b = scenario_build and c = HFP_CODEC_MSBC
      and e = ?ew and rs = "[]" and s = ?sw, THEN conjunct2, THEN conjunct1, THEN mp, OF wr]
  have two: "sco_thread_sco_write scenario_build ?ew HFP_CODEC_MSBC ?sw
      = Continue (error ''SCO write error'' ?sw)"
    by (simp add: errno_after_def EINTR_def ECONNRESET_def ECONNABORTED_def)
  have three: "(case sco_thread_iteration scenario_build
          ((scenario_env (\<lambda>i. if i = 1 then POLLIN else 0))
             \<lparr>sco_read := [\<lparr>ret = -1, err = EINTR\<rparr>, \<lparr>ret = -1, err = ECONNRESET\<rparr>]\<rparr>)
          (scenario_transport HFP_CODEC_CVSD 8)
    of Continue s' \<Rightarrow> bt_fd s' = -1 \<and> calls s' = [Call_asrsync_init 8000, Call_release]
     | _ \<Rightarrow> False)"
    by (simp add: sco_eval errno_after_def ECONNRESET_def ECONNABORTED_def)
  from one two three show ?thesis by simp
qed

text \<open>The claim as stated has the iteration continue after any other error,
  with the buffer cursors unchanged.  In the CVSD arm with the microphone
  closed and 48 bytes in \<open>bt_in\<close>, a \<^verbatim>\<open>read\<close> that fails with \<^verbatim>\<open>EIO\<close> (5)
  ends the iteration right after the log entry, although \<^verbatim>\<open>poll\<close> reported
  the speaker PCM readable, and leaves \<open>bt_in\<close> empty.\<close>

theorem sco_read_error_rewind_counterexample:
  "tail (bt_in ((scenario_transport HFP_CODEC_CVSD 8)
           \<lparr>mic_pcm_fd := -1, bt_in := ffb_seek (ffb_init_uint8_t 0 128) 48\<rparr>)) = 48
   \<and> (case sco_thread_iteration scenario_build
          ((scenario_env (\<lambda>i. if i = 1 \<or> i = 3 then POLLIN else 0))\<lparr>sco_read := [\<lparr>ret = -1, err = 5\<rparr>]\<rparr>)
          ((scenario_transport HFP_CODEC_CVSD 8)
             \<lparr>mic_pcm_fd := -1, bt_in := ffb_seek (ffb_init_uint8_t 0 128) 48\<rparr>)
    of Continue s' \<Rightarrow> tail (bt_in s') = 0 \<and> revents (pfds s' 3) = POLLIN
         \<and> calls s' = [Call_asrsync_init 8000, Call_error ''SCO read error'']
     | _ \<Rightarrow> False)"
  by (simp add: sco_eval errno_after_def ECONNRESET_def ECONNABORTED_def)

subsection \<open>The state machine\<close>

lemma armed_ms_timeouts [simp]:
  "armed_ms (sco_start_timer_timeout SCO_LINGER_TIMEOUT) = Some 1000"
  "armed_ms (sco_start_timer_timeout SCO_DRAIN_TIMEOUT) = Some 250"
  "armed_ms (sco_start_timer_timeout SCO_CLOSE_TIMEOUT) = Some 600"
  "armed_ms sco_cancel_timer_timeout = None"
  by (simp_all add: armed_ms_def sco_start_timer_timeout_def sco_cancel_timer_timeout_def
      SCO_LINGER_TIMEOUT_def SCO_DRAIN_TIMEOUT_def SCO_CLOSE_TIMEOUT_def
      long_div_def long_rem_def signed_divide_int_def signed_modulo_int_def)

lemma sco_signal_action_table:
  "flow_all (\<lambda>s'. view s' = table_signal (transport_idle b s) sig (view s))
     (sco_signal_action b sig s)"
  by (cases sig)
     (auto simp: sco_signal_action_def table_signal_def view_def sco_defs transport_idle_def
        sco_pcm_is_closed_def)

lemma sco_timer_action_table:
  "flow_all (\<lambda>s'. view s' = table_timer (transport_idle b s) (view s)) (sco_timer_action b s)"
  by (cases "sco_state s")
     (auto simp: sco_timer_action_def table_timer_def view_def sco_defs transport_idle_def
        sco_pcm_is_closed_def)

lemma sco_signal_action_keeps:
  "flow_all (\<lambda>s'. transport_idle b s' = transport_idle b s \<and> pipe s' = pipe s
               \<and> initialize_msbc s' = initialize_msbc s)
     (sco_signal_action b sig s)"
  by (cases sig)
     (auto simp: sco_signal_action_def sco_defs transport_idle_def profile_is_ag_def)

lemma sco_timer_action_keeps:
  "flow_all (\<lambda>s'. pipe s' = pipe s \<and> initialize_msbc s' = initialize_msbc s)
     (sco_timer_action b s)"
  by (cases "sco_state s") (auto simp: sco_timer_action_def sco_defs)

lemma sco_signal_action_alive: "flow_alive (sco_signal_action b sig s)"
  by (cases sig) (auto simp: sco_signal_action_def)

lemma sco_timer_action_alive: "flow_alive (sco_timer_action b s)"
  by (cases "sco_state s") (auto simp: sco_timer_action_def)

lemma v_state_view [simp]: "v_state (view s) = sco_state s"
  by (simp add: view_def)

lemma view_eq_state: "view s' = v \<Longrightarrow> sco_state s' = v_state v"
  by (auto simp: view_def)

lemma view_pipe [simp]:
  "view (s\<lparr>pipe := x\<rparr>) = view s" "transport_idle b (s\<lparr>pipe := x\<rparr>) = transport_idle b s"
  by (simp_all add: view_def transport_idle_def profile_is_ag_def)

lemma pre_frame_refl [simp]: "pre_frame b s s"
  by (simp add: pre_frame_def)

lemma pre_frame_set_pfd [simp]: "pre_frame b s (set_pfd i v s') = pre_frame b s s'"
  by (simp add: pre_frame_def set_pfd_def view_def transport_idle_def profile_is_ag_def)

lemma pre_frame_reset [simp]: "pre_frame b s (sco_pfds_reset s') = pre_frame b s s'"
  by (simp add: sco_pfds_reset_def)

lemma pre_frame_cvsd [simp]: "pre_frame b s (sco_pfds_cvsd s') = pre_frame b s s'"
  by (simp add: sco_pfds_cvsd_def Let_def set_pfd_def pre_frame_def view_def transport_idle_def
      profile_is_ag_def)

lemma pre_frame_msbc [simp]: "pre_frame b s (sco_pfds_msbc s') = pre_frame b s s'"
  by (simp add: sco_pfds_msbc_def Let_def set_pfd_def pre_frame_def view_def transport_idle_def
      profile_is_ag_def)

lemma pre_frame_codec [simp]: "pre_frame b s (sco_msbc_encode_decode e s') = pre_frame b s s'"
  by (simp add: sco_msbc_encode_decode_def Let_def sco_defs pre_frame_def view_def
      transport_idle_def profile_is_ag_def)

lemma sco_thread_setup_pre: "flow_all (pre_frame b s) (sco_thread_setup b e c s)"
proof -
  have "pre_frame b s (call Call_msbc_init (x\<lparr>initialize_msbc := False, msbc := m\<rparr>)) = pre_frame b s x"
    for x m
    by (simp add: sco_defs pre_frame_def view_def transport_idle_def profile_is_ag_def)
  moreover have "pre_frame b s (error msg x) = pre_frame b s x" for msg x
    by (simp add: sco_defs pre_frame_def view_def transport_idle_def profile_is_ag_def)
  ultimately show ?thesis
    by (simp add: sco_thread_setup_def Let_def)
qed

lemma sco_thread_poll_pre: "flow_all (pre_frame b s) (sco_thread_poll e s)"
  by (simp add: sco_thread_poll_def sco_defs pre_frame_def view_def transport_idle_def
      profile_is_ag_def)

lemma sco_thread_after_signal_state:
  "flow_all (\<lambda>s'. sco_state s' = sco_state s
                 \<or> sco_state s' = v_state (table_timer (transport_idle b s) (view s)))
     (sco_thread_after_signal b e c s)"
proof -
  let ?Q = "\<lambda>s'. sco_state s' = sco_state s
                 \<or> sco_state s' = v_state (table_timer (transport_idle b s) (view s))"
  have act: "flow_all ?Q (sco_timer_action b s)"
    using sco_timer_action_table [of b s]
    by (rule flow_all_mono) (blast dest: view_eq_state)
  have timer: "flow_all ?Q (sco_thread_timer b e s)"
    using act by (simp add: sco_thread_timer_def sco_defs)
  have io: "flow_all ?Q (sco_thread_io b e c s1)" if "?Q s1" for s1
    using sco_thread_io_frame [of s1 b e c] that
    by (auto elim!: flow_all_mono simp: io_frame_def)
  show ?thesis
    unfolding sco_thread_after_signal_def
  proof (rule flow_all_then_do [where Q = ?Q])
    show "flow_all ?Q (sco_thread_timer b e s)" by (fact timer)
  qed (use io in auto)
qed

lemma sco_thread_signal_onwards_state:
  "flow_all (\<lambda>s'. sco_state s' \<in> set (table_iteration_states b s))
     (then_do (sco_thread_signal b s) (sco_thread_after_signal b e c))"
proof (cases "revents (pfds s 0) AND POLLIN \<noteq> 0")
  case False
  then have "sco_thread_signal b s = Next s"
    by (simp add: sco_thread_signal_def)
  then show ?thesis
    using sco_thread_after_signal_state [of s b e c]
    by (auto elim!: flow_all_mono simp: table_iteration_states_def)
next
  case True
  show ?thesis
  proof (cases "pipe s")
    case Nil
    with True show ?thesis by (simp add: sco_thread_signal_def)
  next
    case (Cons sig rest)
    let ?s = "s\<lparr>pipe := rest\<rparr>"
    let ?v = "table_signal (transport_idle b s) sig (view s)"
    let ?Q = "\<lambda>s1. view s1 = ?v \<and> transport_idle b s1 = transport_idle b s"
    let ?P = "\<lambda>s'. sco_state s' \<in> set (table_iteration_states b s)"
    have sig: "sco_thread_signal b s = sco_signal_action b sig ?s"
      using True Cons by (simp add: sco_thread_signal_def)
    have "flow_all ?Q (sco_signal_action b sig ?s)"
      using sco_signal_action_table [of b ?s sig] sco_signal_action_keeps [of b ?s sig]
      by (cases "sco_signal_action b sig ?s") auto
    moreover have "?P s1" if "?Q s1" for s1
    proof -
      from that have "sco_state s1 = v_state ?v" by (blast dest: view_eq_state)
      with Cons show ?thesis by (simp add: table_iteration_states_def)
    qed
    moreover have "flow_all ?P (sco_thread_after_signal b e c s1)" if "?Q s1" for s1
    proof -
      from that have s1: "sco_state s1 = v_state ?v" by (blast dest: view_eq_state)
      show ?thesis
        using sco_thread_after_signal_state [of s1 b e c] that s1 Cons
        by (auto elim!: flow_all_mono simp: table_iteration_states_def)
    qed
    ultimately show ?thesis
      unfolding sig by (rule flow_all_then_do)
  qed
qed

lemma table_iteration_states_pre:
  "pre_frame b s s' \<Longrightarrow> table_iteration_states b s' = table_iteration_states b s"
  by (simp add: pre_frame_def table_iteration_states_def split: list.splits)

lemma pre_frame_state: "pre_frame b s s' \<Longrightarrow> sco_state s' = sco_state s"
  by (auto simp: pre_frame_def dest: view_eq_state)

lemma sco_state_in_table_iteration_states [simp]:
  "sco_state s \<in> set (table_iteration_states b s)"
  by (simp add: table_iteration_states_def)

lemma sco_thread_iteration_state:
  "flow_all (\<lambda>s'. sco_state s' \<in> set (table_iteration_states b s)) (sco_thread_iteration b e s)"
proof -
  let ?P = "\<lambda>s'. sco_state s' \<in> set (table_iteration_states b s)"
  have start: "?P s1" if "pre_frame b s s1" for s1
    using pre_frame_state [OF that] by simp
  have tail: "flow_all ?P (then_do (sco_thread_signal b s2) (sco_thread_after_signal b e c))"
    if "pre_frame b s s2" for s2 c
    using sco_thread_signal_onwards_state [of b s2 e c] table_iteration_states_pre [OF that]
    by simp
  have poll: "flow_all ?P (then_do (sco_thread_poll e s1)
                (\<lambda>s. then_do (sco_thread_signal b s) (sco_thread_after_signal b e c)))"
    if "pre_frame b s s1" for s1 c
  proof (rule flow_all_then_do [where Q = "pre_frame b s"])
    show "flow_all (pre_frame b s) (sco_thread_poll e s1)"
      using sco_thread_poll_pre [of b s1 e] that
      by (auto elim!: flow_all_mono simp: pre_frame_def)
  qed (use start tail in auto)
  show ?thesis
    unfolding sco_thread_iteration_def
    by (rule flow_all_then_do [where Q = "pre_frame b s"])
       (use sco_thread_setup_pre start poll in auto)
qed

lemma flow_returns_simps [simp]:
  "flow_returns (Next s)" "flow_returns (Continue s)" "flow_returns (Fail s)"
  "\<not> flow_returns Blocked"
  by (simp_all add: flow_returns_def)

lemma flow_returns_then_do:
  assumes "flow_returns c" and "flow_all Q c" and "\<And>s. Q s \<Longrightarrow> flow_returns (f s)"
  shows "flow_returns (then_do c f)"
  using assms by (cases c) auto

lemma sco_read_retry_returns: "answers_end rs \<Longrightarrow> flow_returns (sco_read_retry b c rs s)"
  by (induction rs) (auto simp: answers_end_def)

lemma sco_write_retry_returns: "answers_end rs \<Longrightarrow> flow_returns (sco_write_retry b c rs s)"
  by (induction rs) (auto simp: answers_end_def)

lemma sco_thread_io_returns:
  assumes "answers_end (sco_read e)" and "answers_end (sco_write e)"
  shows "flow_returns (sco_thread_io b e c s)"
proof -
  have rd: "flow_returns (sco_thread_sco_read b e c s1)" for s1
    using assms(1) by (simp add: sco_thread_sco_read_def sco_read_retry_returns)
  have wr: "flow_returns (sco_thread_sco_write b e c s1)" for s1
    using assms(2) by (simp add: sco_thread_sco_write_def sco_write_retry_returns)
  have pr: "flow_returns (sco_thread_pcm_read b e c s1)" for s1
    by (simp add: sco_thread_pcm_read_def Let_def)
  have pw: "flow_returns (sco_thread_pcm_write b e c s1)" for s1
    by (simp add: sco_thread_pcm_write_def Let_def)
  have any: "flow_all (\<lambda>s. True) x" for x :: "sco_thread_state flow"
    by (cases x) auto
  show ?thesis
    unfolding sco_thread_io_def
    by (intro flow_returns_then_do [where Q = "\<lambda>s. True"] rd wr pr pw any) simp_all
qed

lemma sco_thread_after_signal_returns:
  assumes "answers_end (sco_read e)" and "answers_end (sco_write e)"
  shows "flow_returns (sco_thread_after_signal b e c s)"
proof -
  have "flow_returns (sco_thread_timer b e s)"
    by (cases "sco_state s") (simp_all add: sco_thread_timer_def sco_timer_action_def)
  moreover have "flow_all (\<lambda>s. True) (sco_thread_timer b e s)"
    by (cases "sco_thread_timer b e s") auto
  ultimately show ?thesis
    unfolding sco_thread_after_signal_def
    by (rule flow_returns_then_do) (simp add: sco_thread_io_returns assms)
qed

lemma sco_thread_signal_returns:
  "pipe s \<noteq> [] \<or> revents (pfds s 0) AND POLLIN = 0 \<Longrightarrow> flow_returns (sco_thread_signal b s)"
  by (cases "pipe s")
     (auto simp: sco_thread_signal_def sco_signal_action_def split: ba_transport_signal.splits)

lemma sco_thread_poll_pipe:
  "flow_all (\<lambda>s'. pipe s' = pipe s
               \<and> (revents (pfds s' 0) = 0 \<or> revents (pfds s' 0) = poll_revents e 0 \<or> s' = s
                   \<or> s' = error ''SCO poll error'' s))
     (sco_thread_poll e s)"
  by (simp add: sco_thread_poll_def sco_defs)

lemma sco_thread_iteration_returns:
  assumes "env_answers e s"
  shows "flow_returns (sco_thread_iteration b e s)"
proof -
  from assms have rd: "answers_end (sco_read e)" and wr: "answers_end (sco_write e)"
    and sg: "pipe s \<noteq> [] \<or> poll_revents e 0 AND POLLIN = 0"
    by (simp_all add: env_answers_def)
  have tail: "flow_returns (then_do (sco_thread_signal b s2) (sco_thread_after_signal b e c))"
    if "pipe s2 \<noteq> [] \<or> revents (pfds s2 0) AND POLLIN = 0" for s2 c
  proof (rule flow_returns_then_do [where Q = "\<lambda>s. True"])
    show "flow_returns (sco_thread_signal b s2)"
      using that by (rule sco_thread_signal_returns)
    show "flow_all (\<lambda>s. True) (sco_thread_signal b s2)"
      by (cases "sco_thread_signal b s2") auto
  qed (simp add: sco_thread_after_signal_returns rd wr)
  have poll: "flow_returns (then_do (sco_thread_poll e s1)
                (\<lambda>s. then_do (sco_thread_signal b s) (sco_thread_after_signal b e c)))"
    if "pipe s1 = pipe s" for s1 c
  proof (cases "ret (poll_ret e) \<le> 0")
    case True
    then show ?thesis by (simp add: sco_thread_poll_def)
  next
    case False
    let ?s2 = "s1\<lparr>pfds := (\<lambda>i. (pfds s1 i)
                   \<lparr>revents := (if fd (pfds s1 i) < 0 then 0 else poll_revents e i)\<rparr>)\<rparr>"
    have "pipe ?s2 \<noteq> [] \<or> revents (pfds ?s2 0) AND POLLIN = 0"
      using sg that by auto
    from tail [OF this] False show ?thesis
      by (simp add: sco_thread_poll_def)
  qed
  have pre: "flow_all (\<lambda>s1. pipe s1 = pipe s) (sco_thread_setup b e c s)" for c
    using sco_thread_setup_pre [of b s e c]
    by (rule flow_all_mono) (simp add: pre_frame_def)
  have "flow_returns (sco_thread_setup b e c s)" for c
    by (simp add: sco_thread_setup_unfold)
  then show ?thesis
    unfolding sco_thread_iteration_def
    by (rule flow_returns_then_do [OF _ pre]) (rule poll)
qed

text \<open>
  C1.  The transport state is one of the five values of its type.  Whatever
  signal \<^verbatim>\<open>sco_thread\<close> handles, and in whatever state its timer expires, the
  transport state, the timer, and the calls of \<open>release()\<close>, of the drain
  condition and of the speaker flush change as the rows of the tables of
  section 4.4 say: \<^verbatim>\<open>PCM_OPEN\<close> and \<^verbatim>\<open>PCM_RESUME\<close> cancel the timer and set
  RUNNING; \<^verbatim>\<open>PCM_CLOSE\<close> sets LINGER and arms 1000 ms if the profile is in AG,
  both PCMs are closed and the state is not LINGER, and otherwise changes
  nothing and releases nothing; \<^verbatim>\<open>PCM_SYNC\<close> sets DRAINING and arms 250 ms;
  \<^verbatim>\<open>PCM_DROP\<close> cancels the timer and flushes the speaker FIFO; an expiry in
  DRAINING sets RUNNING and signals the condition; in LINGER, with the profile
  in AG and both PCMs closed, it sets CLOSING, calls \<open>release()\<close> and arms
  600 ms; in CLOSING it sets IDLE; in any other state it changes nothing.  The
  signal block applies the signal row to the oldest signal in the pipe, the
  timer block the timer row, and over a whole iteration the transport state
  changes by at most one signal row followed by at most one timer row: no
  other part of the loop body touches it.  The iteration ends whenever the
  environment answers.
\<close>

theorem sco_state_machine_follows_table:
  "(\<exists>s'. flow_state (sco_signal_action b sig s) = Some s'
         \<and> view s' = table_signal (transport_idle b s) sig (view s))
   \<and> (\<exists>s'. flow_state (sco_timer_action b s) = Some s'
         \<and> view s' = table_timer (transport_idle b s) (view s))
   \<and> (revents (pfds s 0) AND POLLIN \<noteq> 0 \<and> pipe s = sig # rest \<longrightarrow>
        sco_thread_signal b s = sco_signal_action b sig (s\<lparr>pipe := rest\<rparr>))
   \<and> (revents (pfds s 0) AND POLLIN = 0 \<longrightarrow> sco_thread_signal b s = Next s)
   \<and> (revents (pfds s 5) AND POLLIN \<noteq> 0 \<and> ret (timer_read e) \<noteq> -1 \<longrightarrow>
        sco_thread_timer b e s = sco_timer_action b s)
   \<and> (revents (pfds s 5) AND POLLIN = 0 \<longrightarrow> sco_thread_timer b e s = Next s)
   \<and> flow_all (\<lambda>s'. sco_state s' \<in> set (table_iteration_states b s))
        (sco_thread_iteration b e s)
   \<and> (env_answers e s \<longrightarrow> flow_returns (sco_thread_iteration b e s))"
proof -
  have sig: "\<exists>s'. flow_state (sco_signal_action b sig s) = Some s'
         \<and> view s' = table_signal (transport_idle b s) sig (view s)"
    using sco_signal_action_table [of b s sig] sco_signal_action_alive [of b sig s]
    by (cases "sco_signal_action b sig s") (auto simp: sco_signal_action_def split: ba_transport_signal.splits)
  have tim: "\<exists>s'. flow_state (sco_timer_action b s) = Some s'
         \<and> view s' = table_timer (transport_idle b s) (view s)"
    using sco_timer_action_table [of b s] sco_timer_action_alive [of b s]
    by (cases "sco_timer_action b s") (auto simp: sco_timer_action_def split: ba_transport_sco_state.splits)
  show ?thesis
    using sig tim sco_thread_iteration_state [of b s e] sco_thread_iteration_returns [of e s b]
    by (simp add: sco_thread_signal_def sco_thread_timer_def)
qed

theorem sco_state_machine_follows_table_witness:
  "env_answers (scenario_env (\<lambda>i. 0))
      ((scenario_transport HFP_CODEC_CVSD 8)
         \<lparr>spk_pcm_fd := -1, mic_pcm_fd := -1, sco_state := BA_TRANSPORT_SCO_STATE_RUNNING,
          pipe := [BA_TRANSPORT_SIGNAL_PCM_CLOSE],
          pfds := (\<lambda>i. \<lparr>fd = 3, events = POLLIN, revents = POLLIN\<rparr>)\<rparr>)
   \<and> (case sco_thread_signal scenario_build
      ((scenario_transport HFP_CODEC_CVSD 8)
         \<lparr>spk_pcm_fd := -1, mic_pcm_fd := -1, sco_state := BA_TRANSPORT_SCO_STATE_RUNNING,
          pipe := [BA_TRANSPORT_SIGNAL_PCM_CLOSE],
          pfds := (\<lambda>i. \<lparr>fd = 3, events = POLLIN, revents = POLLIN\<rparr>)\<rparr>)
    of Continue s' \<Rightarrow>
         view s' = \<lparr>v_state = BA_TRANSPORT_SCO_STATE_LINGER, v_timer = Some 1000,
                    v_released = 0, v_synced = 0, v_flushed = 0\<rparr>
     | _ \<Rightarrow> False)
   \<and> (case sco_thread_signal scenario_build
      ((scenario_transport HFP_CODEC_CVSD 4)
         \<lparr>spk_pcm_fd := -1, mic_pcm_fd := -1, sco_state := BA_TRANSPORT_SCO_STATE_RUNNING,
          pipe := [BA_TRANSPORT_SIGNAL_PCM_CLOSE],
          pfds := (\<lambda>i. \<lparr>fd = 3, events = POLLIN, revents = POLLIN\<rparr>)\<rparr>)
    of Continue s' \<Rightarrow>
         view s' = \<lparr>v_state = BA_TRANSPORT_SCO_STATE_RUNNING, v_timer = None,
                    v_released = 0, v_synced = 0, v_flushed = 0\<rparr>
     | _ \<Rightarrow> False)"
  using sco_state_machine_follows_table
    [of scenario_build BA_TRANSPORT_SIGNAL_PCM_CLOSE
        "(scenario_transport HFP_CODEC_CVSD 8)
         \<lparr>spk_pcm_fd := -1, mic_pcm_fd := -1, sco_state := BA_TRANSPORT_SCO_STATE_RUNNING,
          pipe := [BA_TRANSPORT_SIGNAL_PCM_CLOSE],
          pfds := (\<lambda>i. \<lparr>fd = 3, events = POLLIN, revents = POLLIN\<rparr>)\<rparr>"
        "[]" "scenario_env (\<lambda>i. 0)"]
  by (simp add: scenario_defs sco_thread_signal_def sco_signal_action_def POLLIN_def
      profile_is_ag_def sco_pcm_is_closed_def sco_defs view_def env_answers_def
      answers_end_def errno_after_def)

subsection \<open>Signals per iteration\<close>

lemma sco_thread_timer_keeps:
  "flow_all (\<lambda>s'. pipe s' = pipe s \<and> initialize_msbc s' = initialize_msbc s) (sco_thread_timer b e s)"
  using sco_timer_action_keeps [of s b]
  by (simp add: sco_thread_timer_def sco_defs)

lemma sco_thread_after_signal_frame:
  "flow_all (\<lambda>s'. initialize_msbc s' = initialize_msbc s
                 \<and> (\<exists>n. pipe s' = pipe s @ replicate n BA_TRANSPORT_SIGNAL_PCM_CLOSE))
     (sco_thread_after_signal b e c s)"
proof -
  let ?Q = "\<lambda>s'. pipe s' = pipe s \<and> initialize_msbc s' = initialize_msbc s"
  let ?P = "\<lambda>s'. initialize_msbc s' = initialize_msbc s
                 \<and> (\<exists>n. pipe s' = pipe s @ replicate n BA_TRANSPORT_SIGNAL_PCM_CLOSE)"
  have io: "flow_all ?P (sco_thread_io b e c s1)" if "?Q s1" for s1
    using sco_thread_io_frame [of s1 b e c] that
    by (auto elim!: flow_all_mono simp: io_frame_def)
  show ?thesis
    unfolding sco_thread_after_signal_def
  proof (rule flow_all_then_do [where Q = ?Q])
    show "flow_all ?Q (sco_thread_timer b e s)" by (fact sco_thread_timer_keeps)
    show "?P s1" if "?Q s1" for s1 using that by (simp add: exI [of _ 0])
  qed (use io in auto)
qed

lemma sco_thread_signal_keeps:
  "flow_all (\<lambda>s'. initialize_msbc s' = initialize_msbc s
                 \<and> (pipe s' = pipe s \<or> pipe s' = tl (pipe s)))
     (sco_thread_signal b s)"
proof (cases "pipe s")
  case Nil
  then show ?thesis by (simp add: sco_thread_signal_def)
next
  case (Cons sig rest)
  then show ?thesis
    using sco_signal_action_keeps [of b "s\<lparr>pipe := rest\<rparr>" sig]
    by (auto simp: sco_thread_signal_def elim!: flow_all_mono)
qed

lemma sco_thread_signal_onwards_pipe:
  "flow_all (one_signal_consumed s)
     (then_do (sco_thread_signal b s) (sco_thread_after_signal b e c))"
proof (rule flow_all_then_do [where Q = "\<lambda>s'. pipe s' = pipe s \<or> pipe s' = tl (pipe s)"])
  show "flow_all (\<lambda>s'. pipe s' = pipe s \<or> pipe s' = tl (pipe s)) (sco_thread_signal b s)"
    using sco_thread_signal_keeps [of s b] by (rule flow_all_mono) simp
  show "one_signal_consumed s s1" if "pipe s1 = pipe s \<or> pipe s1 = tl (pipe s)" for s1
    using that unfolding one_signal_consumed_def by (auto intro: exI [of _ 0])
  show "flow_all (one_signal_consumed s) (sco_thread_after_signal b e c s1)"
    if "pipe s1 = pipe s \<or> pipe s1 = tl (pipe s)" for s1
    using sco_thread_after_signal_frame [of s1 b e c] that
    unfolding one_signal_consumed_def
    by (auto elim!: flow_all_mono)
qed

lemma one_signal_consumed_pre:
  "pre_frame b s s1 \<Longrightarrow> one_signal_consumed s1 s' \<Longrightarrow> one_signal_consumed s s'"
  by (simp add: pre_frame_def one_signal_consumed_def)

lemma sco_thread_iteration_pipe:
  "flow_all (one_signal_consumed s) (sco_thread_iteration b e s)"
proof -
  let ?P = "one_signal_consumed s"
  have start: "?P s1" if "pre_frame b s s1" for s1
    using that by (auto simp: pre_frame_def one_signal_consumed_def intro: exI [of _ 0])
  have tail: "flow_all ?P (then_do (sco_thread_signal b s2) (sco_thread_after_signal b e c))"
    if "pre_frame b s s2" for s2 c
    using sco_thread_signal_onwards_pipe [of s2 b e c] that
    by (auto elim!: flow_all_mono intro: one_signal_consumed_pre)
  have poll: "flow_all ?P (then_do (sco_thread_poll e s1)
                (\<lambda>s. then_do (sco_thread_signal b s) (sco_thread_after_signal b e c)))"
    if "pre_frame b s s1" for s1 c
  proof (rule flow_all_then_do [where Q = "pre_frame b s"])
    show "flow_all (pre_frame b s) (sco_thread_poll e s1)"
      using sco_thread_poll_pre [of b s1 e] that
      by (auto elim!: flow_all_mono simp: pre_frame_def)
  qed (use start tail in auto)
  show ?thesis
    unfolding sco_thread_iteration_def
    by (rule flow_all_then_do [where Q = "pre_frame b s"])
       (use sco_thread_setup_pre start poll in auto)
qed

text \<open>
  C7.  An iteration takes at most one signal out of the pipe (the oldest), and
  all it may add to the pipe are \<^verbatim>\<open>PCM_CLOSE\<close> signals to itself.  \<^verbatim>\<open>PING\<close>,
  \<^verbatim>\<open>PCM_OPEN\<close>, \<^verbatim>\<open>PCM_RESUME\<close>, \<^verbatim>\<open>PCM_CLOSE\<close> and \<^verbatim>\<open>PCM_DROP\<close> end the
  iteration with \<^verbatim>\<open>continue\<close> right after their action; after \<^verbatim>\<open>PCM_SYNC\<close>
  the same iteration goes on with the timer block and the data blocks, from
  the state in which DRAINING is set and the drain timer armed.  (A signal
  without a \<^verbatim>\<open>case\<close> of its own goes on, too, unchanged.)  The iteration
  ends whenever the environment answers.
\<close>

theorem sco_thread_one_signal_per_iteration:
  "flow_all (one_signal_consumed s) (sco_thread_iteration b e s)
   \<and> (\<exists>s'. sco_signal_action b BA_TRANSPORT_SIGNAL_PING s = Continue s')
   \<and> (\<exists>s'. sco_signal_action b BA_TRANSPORT_SIGNAL_PCM_OPEN s = Continue s')
   \<and> (\<exists>s'. sco_signal_action b BA_TRANSPORT_SIGNAL_PCM_RESUME s = Continue s')
   \<and> (\<exists>s'. sco_signal_action b BA_TRANSPORT_SIGNAL_PCM_CLOSE s = Continue s')
   \<and> (\<exists>s'. sco_signal_action b BA_TRANSPORT_SIGNAL_PCM_DROP s = Continue s')
   \<and> sco_signal_action b BA_TRANSPORT_SIGNAL_PCM_SYNC s
       = Next (sco_start_timer SCO_DRAIN_TIMEOUT (s\<lparr>sco_state := BA_TRANSPORT_SCO_STATE_DRAINING\<rparr>))
   \<and> (revents (pfds s 0) AND POLLIN \<noteq> 0 \<and> pipe s = sig # rest \<longrightarrow>
        then_do (sco_thread_signal b s) (sco_thread_after_signal b e c)
          = (if sig = BA_TRANSPORT_SIGNAL_PCM_SYNC
             then sco_thread_after_signal b e c
                    (sco_start_timer SCO_DRAIN_TIMEOUT
                       (s\<lparr>pipe := rest, sco_state := BA_TRANSPORT_SCO_STATE_DRAINING\<rparr>))
             else if sig = BA_TRANSPORT_SIGNAL_OTHER
             then sco_thread_after_signal b e c (s\<lparr>pipe := rest\<rparr>)
             else sco_signal_action b sig (s\<lparr>pipe := rest\<rparr>)))
   \<and> (env_answers e s \<longrightarrow> flow_returns (sco_thread_iteration b e s))"
proof -
  have "then_do (sco_thread_signal b s) (sco_thread_after_signal b e c)
          = (if sig = BA_TRANSPORT_SIGNAL_PCM_SYNC
             then sco_thread_after_signal b e c
                    (sco_start_timer SCO_DRAIN_TIMEOUT
                       (s\<lparr>pipe := rest, sco_state := BA_TRANSPORT_SCO_STATE_DRAINING\<rparr>))
             else if sig = BA_TRANSPORT_SIGNAL_OTHER
             then sco_thread_after_signal b e c (s\<lparr>pipe := rest\<rparr>)
             else sco_signal_action b sig (s\<lparr>pipe := rest\<rparr>))"
    if "revents (pfds s 0) AND POLLIN \<noteq> 0" and "pipe s = sig # rest"
    using that by (cases sig) (simp_all add: sco_thread_signal_def sco_signal_action_def)
  then show ?thesis
    using sco_thread_iteration_pipe [of s b e] sco_thread_iteration_returns [of e s b]
    by (simp add: sco_signal_action_def)
qed

theorem sco_thread_one_signal_per_iteration_witness:
  "env_answers (scenario_env (\<lambda>i. if i = 0 then POLLIN else 0))
      ((scenario_transport HFP_CODEC_CVSD 8)
         \<lparr>pipe := [BA_TRANSPORT_SIGNAL_PCM_SYNC, BA_TRANSPORT_SIGNAL_PCM_OPEN],
          pfds := (\<lambda>i. \<lparr>fd = 3, events = POLLIN, revents = POLLIN\<rparr>)\<rparr>)
   \<and> (case sco_thread_iteration scenario_build (scenario_env (\<lambda>i. if i = 0 then POLLIN else 0))
          ((scenario_transport HFP_CODEC_CVSD 8)
             \<lparr>pipe := [BA_TRANSPORT_SIGNAL_PCM_SYNC, BA_TRANSPORT_SIGNAL_PCM_OPEN],
              pfds := (\<lambda>i. \<lparr>fd = 3, events = POLLIN, revents = POLLIN\<rparr>)\<rparr>)
    of Next s' \<Rightarrow> pipe s' = [BA_TRANSPORT_SIGNAL_PCM_OPEN]
                  \<and> sco_state s' = BA_TRANSPORT_SCO_STATE_DRAINING
                  \<and> calls s' = [Call_timerfd_settime (sco_start_timer_timeout SCO_DRAIN_TIMEOUT),
                                Call_asrsync_init 8000, Call_asrsync_sync 24]
     | _ \<Rightarrow> False)
   \<and> (case sco_thread_iteration scenario_build (scenario_env (\<lambda>i. if i = 0 then POLLIN else 0))
          ((scenario_transport HFP_CODEC_CVSD 8)
             \<lparr>pipe := [BA_TRANSPORT_SIGNAL_PCM_OPEN, BA_TRANSPORT_SIGNAL_PCM_SYNC]\<rparr>)
    of Continue s' \<Rightarrow> pipe s' = [BA_TRANSPORT_SIGNAL_PCM_SYNC]
                  \<and> sco_state s' = BA_TRANSPORT_SCO_STATE_RUNNING
                  \<and> calls s' = [Call_timerfd_settime sco_cancel_timer_timeout]
     | _ \<Rightarrow> False)"
  using sco_thread_one_signal_per_iteration
    [of "(scenario_transport HFP_CODEC_CVSD 8)
             \<lparr>pipe := [BA_TRANSPORT_SIGNAL_PCM_SYNC, BA_TRANSPORT_SIGNAL_PCM_OPEN],
              pfds := (\<lambda>i. \<lparr>fd = 3, events = POLLIN, revents = POLLIN\<rparr>)\<rparr>"
        scenario_build "scenario_env (\<lambda>i. if i = 0 then POLLIN else 0)"
        BA_TRANSPORT_SIGNAL_PCM_SYNC "[BA_TRANSPORT_SIGNAL_PCM_OPEN]" HFP_CODEC_CVSD]
  by (simp add: sco_eval env_answers_def answers_end_def errno_after_def)

subsection \<open>Reinitialising the mSBC pipeline\<close>

lemma sco_pfds_msbc_mark:
  "bt_fd s = -1 \<or> (spk_pcm_fd s = -1 \<and> mic_pcm_fd s = -1) \<Longrightarrow> initialize_msbc (sco_pfds_msbc s)"
  by (auto simp: sco_pfds_msbc_def Let_def set_pfd_def)

lemma sco_pfds_msbc_calls [simp]: "calls (sco_pfds_msbc s) = calls s"
  by (simp add: sco_pfds_msbc_def Let_def set_pfd_def)

lemma sco_msbc_encode_decode_fds [simp]:
  "bt_fd (sco_msbc_encode_decode e s) = bt_fd s"
  "spk_pcm_fd (sco_msbc_encode_decode e s) = spk_pcm_fd s"
  "mic_pcm_fd (sco_msbc_encode_decode e s) = mic_pcm_fd s"
  by (simp_all add: sco_msbc_encode_decode_def Let_def sco_defs)

lemma sco_msbc_encode_decode_calls:
  "\<exists>rest. calls (sco_msbc_encode_decode e s) = calls s @ Call_msbc_encode # rest"
  by (simp add: sco_msbc_encode_decode_def Let_def sco_defs)

lemma sco_pfds_reset_fds [simp]:
  "bt_fd (sco_pfds_reset s) = bt_fd s"
  "spk_pcm_fd (sco_pfds_reset s) = spk_pcm_fd s"
  "mic_pcm_fd (sco_pfds_reset s) = mic_pcm_fd s"
  "calls (sco_pfds_reset s) = calls s"
  by (simp_all add: sco_pfds_reset_def set_pfd_def)

lemma sco_thread_setup_mark:
  assumes "msbc_arm b c" and "bt_fd s = -1 \<or> (spk_pcm_fd s = -1 \<and> mic_pcm_fd s = -1)"
  shows "(\<exists>s'. sco_thread_setup b e c s = Next s' \<and> initialize_msbc s')
       \<or> (\<exists>s'. sco_thread_setup b e c s = Fail s')"
  using assms
  by (auto simp: sco_thread_setup_unfold sco_defs intro!: sco_pfds_msbc_mark)

lemma sco_thread_poll_mark:
  "flow_all (\<lambda>s'. initialize_msbc s' = initialize_msbc s) (sco_thread_poll e s)"
  by (simp add: sco_thread_poll_def sco_defs)

lemma sco_thread_signal_onwards_mark:
  "flow_all (\<lambda>s'. initialize_msbc s' = initialize_msbc s)
     (then_do (sco_thread_signal b s) (sco_thread_after_signal b e c))"
proof (rule flow_all_then_do [where Q = "\<lambda>s'. initialize_msbc s' = initialize_msbc s"])
  show "flow_all (\<lambda>s'. initialize_msbc s' = initialize_msbc s) (sco_thread_signal b s)"
    using sco_thread_signal_keeps [of s b] by (rule flow_all_mono) simp
  show "flow_all (\<lambda>s'. initialize_msbc s' = initialize_msbc s) (sco_thread_after_signal b e c s1)"
    if "initialize_msbc s1 = initialize_msbc s" for s1
    using sco_thread_after_signal_frame [of s1 b e c] that
    by (auto elim!: flow_all_mono)
qed simp

lemma sco_thread_after_setup_mark:
  "flow_all (\<lambda>s'. initialize_msbc s' = initialize_msbc s)
     (then_do (sco_thread_poll e s)
        (\<lambda>s. then_do (sco_thread_signal b s) (sco_thread_after_signal b e c)))"
proof (rule flow_all_then_do [where Q = "\<lambda>s'. initialize_msbc s' = initialize_msbc s"])
  show "flow_all (\<lambda>s'. initialize_msbc s' = initialize_msbc s) (sco_thread_poll e s)"
    by (fact sco_thread_poll_mark)
  show "flow_all (\<lambda>s'. initialize_msbc s' = initialize_msbc s)
          (then_do (sco_thread_signal b s1) (sco_thread_after_signal b e c))"
    if "initialize_msbc s1 = initialize_msbc s" for s1
    using sco_thread_signal_onwards_mark [of s1 b e c] that
    by (auto elim!: flow_all_mono)
qed simp

lemma sco_thread_setup_calls:
  assumes "ENABLE_MSBC b" and "c = HFP_CODEC_MSBC" and "initialize_msbc s"
  shows "(msbc_init_ret e \<noteq> 0 \<and> (\<exists>s'. sco_thread_setup b e c s = Fail s'))
       \<or> (msbc_init_ret e = 0 \<and>
            (\<exists>s' rest. sco_thread_setup b e c s = Next s'
               \<and> calls s' = calls s @ Call_msbc_init # Call_msbc_encode # rest))"
proof (cases "msbc_init_ret e = 0")
  case True
  let ?s1 = "call Call_msbc_init
                  ((sco_pfds_reset s)\<lparr>initialize_msbc := False,
                     msbc := msbc_init (msbc_fresh b) (msbc_init_ret e) (msbc s)\<rparr>)"
  have "calls ?s1 = calls s @ [Call_msbc_init]"
    by (simp add: sco_defs)
  with sco_msbc_encode_decode_calls [of e ?s1]
  obtain rest where "calls (sco_pfds_msbc (sco_msbc_encode_decode e ?s1))
      = calls s @ Call_msbc_init # Call_msbc_encode # rest"
    by auto
  with True assms show ?thesis
    by (simp add: sco_thread_setup_unfold)
next
  case False
  with assms show ?thesis
    by (simp add: sco_thread_setup_unfold)
qed

lemma sco_pfds_cvsd_mark [simp]: "initialize_msbc (sco_pfds_cvsd s) = initialize_msbc s"
  by (simp add: sco_pfds_cvsd_def Let_def set_pfd_def)

lemma sco_thread_iteration_mark_kept:
  assumes "\<not> msbc_arm b (codec s)"
  shows "flow_all (\<lambda>s'. initialize_msbc s' = initialize_msbc s) (sco_thread_iteration b e s)"
proof -
  have "\<exists>s1. sco_thread_setup b e (codec s) s = Next s1 \<and> initialize_msbc s1 = initialize_msbc s"
    using assms by (auto simp: sco_thread_setup_unfold msbc_arm_def sco_pfds_reset_def set_pfd_def)
  then obtain s1 where s1: "sco_thread_setup b e (codec s) s = Next s1"
      "initialize_msbc s1 = initialize_msbc s"
    by blast
  show ?thesis
    using sco_thread_after_setup_mark [of s1 e b "codec s"] s1
    by (simp add: sco_thread_iteration_def)
qed

lemma sco_thread_setup_initialized:
  assumes "ENABLE_MSBC b" and "c = HFP_CODEC_MSBC" and "initialize_msbc s" and "msbc_init_ret e = 0"
  shows "\<exists>s'. sco_thread_setup b e c s = Next s' \<and> initialized (msbc s')"
proof -
  let ?s1 = "call Call_msbc_init
               ((sco_pfds_reset s)\<lparr>initialize_msbc := False,
                  msbc := msbc_init (msbc_fresh b) (msbc_init_ret e) (msbc s)\<rparr>)"
  have "initialized (msbc ?s1)"
    using assms(4) by (simp add: sco_defs msbc_init_def)
  moreover have "untouched ?s1 (sco_pfds_msbc (sco_msbc_encode_decode e ?s1))"
    by simp
  ultimately have "initialized (msbc (sco_pfds_msbc (sco_msbc_encode_decode e ?s1)))"
    by (simp add: untouched_def)
  with assms show ?thesis
    by (simp add: sco_thread_setup_unfold)
qed

lemma sco_thread_setup_unmarked:
  assumes "ENABLE_MSBC b" and "c = HFP_CODEC_MSBC" and "\<not> initialize_msbc s"
  shows "\<exists>s' rest. sco_thread_setup b e c s = Next s'
           \<and> calls s' = calls s @ Call_msbc_encode # rest"
proof -
  from sco_msbc_encode_decode_calls [of e "sco_pfds_reset s"]
  obtain rest where "calls (sco_pfds_msbc (sco_msbc_encode_decode e (sco_pfds_reset s)))
      = calls s @ Call_msbc_encode # rest"
    by auto
  with assms show ?thesis
    by (simp add: sco_thread_setup_unfold msbc_arm_def)
qed

text \<open>
  C9 (as amended).  With codec mSBC: whenever the check before \<^verbatim>\<open>poll\<close> finds
  \<open>bt_fd = -1\<close> or both PCM descriptors at -1, the pipeline is marked for
  reinitialisation (or the iteration has left the loop because \<^verbatim>\<open>msbc_init\<close>
  failed), and the mark is still set when the iteration ends; iterations with
  another codec leave the mark as it is; an iteration that starts with the mark
  set calls \<^verbatim>\<open>msbc_init\<close> before it calls \<^verbatim>\<open>msbc_encode\<close> and
  \<^verbatim>\<open>msbc_decode\<close> and has the pipeline initialised, or leaves the loop if
  \<^verbatim>\<open>msbc_init\<close> fails.  The check before \<^verbatim>\<open>poll\<close> is the only place where
  the mark is set: from there to the end of the iteration the mark does not
  change, whatever is released or closed in between, and an iteration that
  starts without the mark calls \<^verbatim>\<open>msbc_encode\<close> with no \<^verbatim>\<open>msbc_init\<close> before
  it.  Nothing in the loop clears the pipeline's own \<open>initialized\<close> flag: once
  true it is true after every iteration.
\<close>

theorem sco_msbc_reinitialization:
  assumes "ENABLE_MSBC b" and "c = HFP_CODEC_MSBC"
  shows "(bt_fd s = -1 \<or> (spk_pcm_fd s = -1 \<and> mic_pcm_fd s = -1) \<longrightarrow>
            (\<exists>s'. sco_thread_setup b e c s = Next s' \<and> initialize_msbc s')
          \<or> (\<exists>s'. sco_thread_setup b e c s = Fail s'))
       \<and> ((bt_fd s = -1 \<or> (spk_pcm_fd s = -1 \<and> mic_pcm_fd s = -1)) \<and> codec s = c \<longrightarrow>
            (\<forall>s'. sco_thread_iteration b e s = Next s' \<or> sco_thread_iteration b e s = Continue s'
                 \<longrightarrow> initialize_msbc s'))
       \<and> (codec s \<noteq> HFP_CODEC_MSBC \<longrightarrow>
            flow_all (\<lambda>s'. initialize_msbc s' = initialize_msbc s) (sco_thread_iteration b e s))
       \<and> (initialize_msbc s \<longrightarrow>
            (msbc_init_ret e \<noteq> 0 \<and> (\<exists>s'. sco_thread_setup b e c s = Fail s'))
          \<or> (msbc_init_ret e = 0 \<and>
               (\<exists>s' rest. sco_thread_setup b e c s = Next s'
                  \<and> calls s' = calls s @ Call_msbc_init # Call_msbc_encode # rest
                  \<and> initialized (msbc s'))))
       \<and> (\<not> initialize_msbc s \<longrightarrow>
            (\<exists>s' rest. sco_thread_setup b e c s = Next s'
               \<and> calls s' = calls s @ Call_msbc_encode # rest))
       \<and> (codec s = c \<and> sco_thread_setup b e c s = Next s1 \<longrightarrow>
            flow_all (\<lambda>s'. initialize_msbc s' = initialize_msbc s1) (sco_thread_iteration b e s))
       \<and> flow_all (\<lambda>s'. initialized (msbc s) \<longrightarrow> initialized (msbc s'))
            (sco_thread_iteration b e s)"
proof -
  have arm: "msbc_arm b c"
    using assms by (simp add: msbc_arm_def)
  have one: "(\<exists>s'. sco_thread_setup b e c s = Next s' \<and> initialize_msbc s')
          \<or> (\<exists>s'. sco_thread_setup b e c s = Fail s')"
    if "bt_fd s = -1 \<or> (spk_pcm_fd s = -1 \<and> mic_pcm_fd s = -1)"
    using sco_thread_setup_mark [OF arm that] .
  have six: "flow_all (\<lambda>s'. initialize_msbc s' = initialize_msbc s1) (sco_thread_iteration b e s)"
    if "codec s = c" and "sco_thread_setup b e c s = Next s1"
    using sco_thread_after_setup_mark [of s1 e b c] that
    by (simp add: sco_thread_iteration_def)
  have two: "initialize_msbc s'"
    if idle: "bt_fd s = -1 \<or> (spk_pcm_fd s = -1 \<and> mic_pcm_fd s = -1)" and c: "codec s = c"
      and res: "sco_thread_iteration b e s = Next s' \<or> sco_thread_iteration b e s = Continue s'"
    for s'
  proof -
    from one [OF idle] show ?thesis
    proof
      assume "\<exists>s1. sco_thread_setup b e c s = Next s1 \<and> initialize_msbc s1"
      then obtain s1 where s1: "sco_thread_setup b e c s = Next s1" "initialize_msbc s1"
        by blast
      have "flow_all (\<lambda>s'. initialize_msbc s' = initialize_msbc s1) (sco_thread_iteration b e s)"
        using sco_thread_after_setup_mark [of s1 e b c] s1(1) c
        by (simp add: sco_thread_iteration_def)
      with res s1(2) show ?thesis by auto
    next
      assume "\<exists>s1. sco_thread_setup b e c s = Fail s1"
      then have "\<exists>s1. sco_thread_iteration b e s = Fail s1"
        using c by (auto simp: sco_thread_iteration_def)
      with res show ?thesis by auto
    qed
  qed
  have three: "(msbc_init_ret e \<noteq> 0 \<and> (\<exists>s'. sco_thread_setup b e c s = Fail s'))
          \<or> (msbc_init_ret e = 0 \<and>
               (\<exists>s' rest. sco_thread_setup b e c s = Next s'
                  \<and> calls s' = calls s @ Call_msbc_init # Call_msbc_encode # rest
                  \<and> initialized (msbc s')))"
    if "initialize_msbc s"
    using sco_thread_setup_calls [OF assms that, of e]
      sco_thread_setup_initialized [OF assms that, of e]
    by auto
  have four: "flow_all (\<lambda>s'. initialize_msbc s' = initialize_msbc s) (sco_thread_iteration b e s)"
    if "codec s \<noteq> HFP_CODEC_MSBC"
    using that by (intro sco_thread_iteration_mark_kept) (simp add: msbc_arm_def)
  have five: "\<exists>s' rest. sco_thread_setup b e c s = Next s'
               \<and> calls s' = calls s @ Call_msbc_encode # rest"
    if "\<not> initialize_msbc s"
    using sco_thread_setup_unmarked [OF assms that] .
  have seven: "flow_all (\<lambda>s'. initialized (msbc s) \<longrightarrow> initialized (msbc s'))
            (sco_thread_iteration b e s)"
    using sco_thread_iteration_pipeline [of s b e]
    by (rule flow_all_mono) (simp add: pipeline_frame_def)
  from one two three four five six seven show ?thesis by blast
qed

theorem sco_msbc_reinitialization_witness:
  "(case sco_thread_setup scenario_build (scenario_env (\<lambda>i. 0)) HFP_CODEC_MSBC
          ((scenario_transport HFP_CODEC_MSBC 8)\<lparr>bt_fd := -1\<rparr>)
    of Next s' \<Rightarrow> initialize_msbc s' \<and> initialized (msbc s')
                  \<and> calls s' = [Call_msbc_init, Call_msbc_encode, Call_msbc_decode]
     | _ \<Rightarrow> False)"
proof -
  have build: "ENABLE_MSBC scenario_build" "HFP_CODEC_MSBC = HFP_CODEC_MSBC"
    by (simp_all add: scenario_build_def)
  from sco_msbc_reinitialization [OF build, of "(scenario_transport HFP_CODEC_MSBC 8)\<lparr>bt_fd := -1\<rparr>"
      "scenario_env (\<lambda>i. 0)"]
  show ?thesis
    by (simp add: sco_eval)
qed

text \<open>The claim as stated has \<open>initialized\<close> false whenever \<open>bt_fd\<close> is -1,
  and the pipeline reinitialised before it is used again after an iteration in
  which the SCO socket was detached.  First, the first iteration of a thread
  with codec mSBC and no SCO link initialises the pipeline and ends with
  \<open>initialized\<close> true and \<open>bt_fd = -1\<close>.  Second, two wake-ups of a thread
  with an SCO link: in the first the \<^verbatim>\<open>read\<close> on the SCO socket fails with
  \<^verbatim>\<open>ECONNRESET\<close> and the link is released, after the check before \<^verbatim>\<open>poll\<close>;
  the second calls \<^verbatim>\<open>msbc_encode\<close> and \<^verbatim>\<open>msbc_decode\<close> with no
  \<^verbatim>\<open>msbc_init\<close> before them, and ends with \<open>initialized\<close> true and
  \<open>bt_fd = -1\<close>.\<close>

theorem sco_msbc_initialized_counterexample:
  "(case sco_thread_iteration scenario_build
          ((scenario_env (\<lambda>i. 0))\<lparr>poll_ret := \<lparr>ret = -1, err = EINTR\<rparr>\<rparr>)
          ((scenario_transport HFP_CODEC_MSBC 8)\<lparr>bt_fd := -1\<rparr>)
    of Continue s' \<Rightarrow> codec s' = HFP_CODEC_MSBC \<and> bt_fd s' = -1 \<and> initialized (msbc s')
     | _ \<Rightarrow> False)
   \<and> (case sco_thread_loop scenario_build
          [(scenario_env (\<lambda>i. if i = 1 then POLLIN else 0))
             \<lparr>sco_read := [\<lparr>ret = -1, err = ECONNRESET\<rparr>]\<rparr>,
           (scenario_env (\<lambda>i. 0))\<lparr>poll_ret := \<lparr>ret = -1, err = EINTR\<rparr>\<rparr>]
          (scenario_transport HFP_CODEC_MSBC 8)
    of Next s' \<Rightarrow> codec s' = HFP_CODEC_MSBC \<and> bt_fd s' = -1 \<and> initialized (msbc s')
         \<and> calls s' = [Call_msbc_init, Call_msbc_encode, Call_msbc_decode,
                       Call_asrsync_init 8000, Call_release,
                       Call_msbc_encode, Call_msbc_decode]
     | _ \<Rightarrow> False)"
  by (simp add: sco_eval errno_after_def ECONNRESET_def ECONNABORTED_def)

subsection \<open>Leaving the loop\<close>

lemma sco_thread_timer_alive:
  "ret (timer_read e) \<noteq> -1 \<Longrightarrow> flow_alive (sco_thread_timer b e s)"
  by (simp add: sco_thread_timer_def sco_timer_action_alive)

lemma sco_thread_after_signal_alive:
  "ret (timer_read e) \<noteq> -1 \<Longrightarrow> flow_alive (sco_thread_after_signal b e c s)"
  unfolding sco_thread_after_signal_def
  by (intro flow_alive_then_do) (simp_all add: sco_thread_timer_alive sco_thread_io_alive)

lemma sco_thread_signal_alive: "flow_alive (sco_thread_signal b s)"
  by (simp add: sco_thread_signal_def sco_signal_action_alive split: list.splits)

lemma sco_thread_poll_alive:
  "\<not> (ret (poll_ret e) \<le> 0 \<and> err (poll_ret e) \<noteq> EINTR) \<Longrightarrow> flow_alive (sco_thread_poll e s)"
  by (auto simp: sco_thread_poll_def)

lemma sco_thread_setup_alive:
  "\<not> (ENABLE_MSBC b \<and> c = HFP_CODEC_MSBC \<and> initialize_msbc s \<and> msbc_init_ret e \<noteq> 0)
   \<Longrightarrow> flow_alive (sco_thread_setup b e c s)"
  by (auto simp: sco_thread_setup_unfold)

lemma sco_thread_iteration_alive:
  assumes "\<not> (ENABLE_MSBC b \<and> codec s = HFP_CODEC_MSBC \<and> initialize_msbc s \<and> msbc_init_ret e \<noteq> 0)"
    and "\<not> (ret (poll_ret e) \<le> 0 \<and> err (poll_ret e) \<noteq> EINTR)"
    and "ret (timer_read e) \<noteq> -1"
  shows "flow_alive (sco_thread_iteration b e s)"
  unfolding sco_thread_iteration_def
  by (intro flow_alive_then_do)
     (use assms in \<open>simp_all add: sco_thread_setup_alive sco_thread_poll_alive
        sco_thread_signal_alive sco_thread_after_signal_alive\<close>)

text \<open>
  C10 (as amended).  If the timer block runs and reading the expiration count
  returns -1, the timer is cancelled and the thread leaves the loop through
  \<^verbatim>\<open>fail\<close>.  The loop is left in two more cases: when \<^verbatim>\<open>msbc_init\<close> fails, and
  when \<^verbatim>\<open>poll\<close> fails with an error other than \<^verbatim>\<open>EINTR\<close>.  In no other case
  does an iteration leave the loop: errors of the SCO and PCM reads and writes
  and of the codec calls keep the thread alive.  After \<^verbatim>\<open>fail\<close> no further
  wake-up is handled; after \<^verbatim>\<open>continue\<close> or the end of the body the loop
  goes on with the next one.
\<close>

theorem sco_thread_exits:
  "(revents (pfds s 5) AND POLLIN \<noteq> 0 \<and> ret (timer_read e) = -1 \<longrightarrow>
      sco_thread_timer b e s = Fail (sco_cancel_timer s)
      \<and> sco_thread_after_signal b e c s = Fail (sco_cancel_timer s)
      \<and> timer (sco_cancel_timer s) = sco_cancel_timer_timeout)
   \<and> (ENABLE_MSBC b \<and> codec s = HFP_CODEC_MSBC \<and> initialize_msbc s \<and> msbc_init_ret e \<noteq> 0 \<longrightarrow>
        (\<exists>s'. sco_thread_iteration b e s = Fail s'))
   \<and> (\<not> (ENABLE_MSBC b \<and> codec s = HFP_CODEC_MSBC \<and> initialize_msbc s \<and> msbc_init_ret e \<noteq> 0)
        \<and> ret (poll_ret e) \<le> 0 \<and> err (poll_ret e) \<noteq> EINTR \<longrightarrow>
        (\<exists>s'. sco_thread_iteration b e s = Fail s'))
   \<and> ((\<exists>s'. sco_thread_iteration b e s = Fail s') \<longrightarrow>
        (ENABLE_MSBC b \<and> codec s = HFP_CODEC_MSBC \<and> initialize_msbc s \<and> msbc_init_ret e \<noteq> 0)
        \<or> (ret (poll_ret e) \<le> 0 \<and> err (poll_ret e) \<noteq> EINTR)
        \<or> ret (timer_read e) = -1)
   \<and> (sco_thread_iteration b e s = Fail x \<longrightarrow> sco_thread_loop b (e # es) s = Fail x)
   \<and> (sco_thread_iteration b e s = Continue x \<or> sco_thread_iteration b e s = Next x \<longrightarrow>
        sco_thread_loop b (e # es) s = sco_thread_loop b es x)"
proof -
  have timer: "sco_thread_timer b e s = Fail (sco_cancel_timer s)
      \<and> sco_thread_after_signal b e c s = Fail (sco_cancel_timer s)
      \<and> timer (sco_cancel_timer s) = sco_cancel_timer_timeout"
    if "revents (pfds s 5) AND POLLIN \<noteq> 0" and "ret (timer_read e) = -1"
    using that by (simp add: sco_thread_timer_def sco_thread_after_signal_def sco_defs)
  have init: "\<exists>s'. sco_thread_iteration b e s = Fail s'"
    if "ENABLE_MSBC b" "codec s = HFP_CODEC_MSBC" "initialize_msbc s" "msbc_init_ret e \<noteq> 0"
    using that by (simp add: sco_thread_iteration_def sco_thread_setup_unfold)
  have poll: "\<exists>s'. sco_thread_iteration b e s = Fail s'"
    if "\<not> (ENABLE_MSBC b \<and> codec s = HFP_CODEC_MSBC \<and> initialize_msbc s \<and> msbc_init_ret e \<noteq> 0)"
      and "ret (poll_ret e) \<le> 0" and "err (poll_ret e) \<noteq> EINTR"
  proof -
    have "\<exists>s1. sco_thread_setup b e (codec s) s = Next s1"
      using that(1) by (simp add: sco_thread_setup_unfold)
    then obtain s1 where "sco_thread_setup b e (codec s) s = Next s1" ..
    then show ?thesis
      using that(2,3) by (simp add: sco_thread_iteration_def sco_thread_poll_def)
  qed
  have only: "(ENABLE_MSBC b \<and> codec s = HFP_CODEC_MSBC \<and> initialize_msbc s \<and> msbc_init_ret e \<noteq> 0)
        \<or> (ret (poll_ret e) \<le> 0 \<and> err (poll_ret e) \<noteq> EINTR)
        \<or> ret (timer_read e) = -1"
    if "\<exists>s'. sco_thread_iteration b e s = Fail s'"
  proof (rule ccontr)
    assume "\<not> ((ENABLE_MSBC b \<and> codec s = HFP_CODEC_MSBC \<and> initialize_msbc s \<and> msbc_init_ret e \<noteq> 0)
        \<or> (ret (poll_ret e) \<le> 0 \<and> err (poll_ret e) \<noteq> EINTR)
        \<or> ret (timer_read e) = -1)"
    then have "flow_alive (sco_thread_iteration b e s)"
      by (intro sco_thread_iteration_alive) blast+
    with that show False by auto
  qed
  have loop: "(sco_thread_iteration b e s = Fail x \<longrightarrow> sco_thread_loop b (e # es) s = Fail x)
   \<and> (sco_thread_iteration b e s = Continue x \<or> sco_thread_iteration b e s = Next x \<longrightarrow>
        sco_thread_loop b (e # es) s = sco_thread_loop b es x)"
    by auto
  from timer init poll only loop show ?thesis by blast
qed

theorem sco_thread_exits_witness:
  "(case sco_thread_timer scenario_build
          ((scenario_env (\<lambda>i. 0))\<lparr>timer_read := \<lparr>ret = -1, err = 5\<rparr>\<rparr>)
          ((scenario_transport HFP_CODEC_CVSD 8)
             \<lparr>timer := sco_start_timer_timeout SCO_LINGER_TIMEOUT,
              pfds := (\<lambda>i. \<lparr>fd = 4, events = POLLIN, revents = POLLIN\<rparr>)\<rparr>)
    of Fail s' \<Rightarrow> timer s' = sco_cancel_timer_timeout
                  \<and> calls s' = [Call_timerfd_settime sco_cancel_timer_timeout]
     | _ \<Rightarrow> False)"
  using sco_thread_exits
    [where s = "(scenario_transport HFP_CODEC_CVSD 8)
             \<lparr>timer := sco_start_timer_timeout SCO_LINGER_TIMEOUT,
              pfds := (\<lambda>i. \<lparr>fd = 4, events = POLLIN, revents = POLLIN\<rparr>)\<rparr>"
        and e = "(scenario_env (\<lambda>i. 0))\<lparr>timer_read := \<lparr>ret = -1, err = 5\<rparr>\<rparr>"
        and b = scenario_build and c = HFP_CODEC_CVSD]
  by (simp add: scenario_defs POLLIN_def sco_defs)

text \<open>The claim as stated has the timer read as the only error that ends the
  thread.  A \<^verbatim>\<open>poll\<close> that fails with \<^verbatim>\<open>EBADF\<close> (9) ends it as well, the timer
  read being fine.\<close>

theorem sco_thread_poll_error_counterexample:
  "ret (timer_read ((scenario_env (\<lambda>i. 0))\<lparr>poll_ret := \<lparr>ret = -1, err = 9\<rparr>\<rparr>)) \<noteq> -1
   \<and> (case sco_thread_iteration scenario_build
          ((scenario_env (\<lambda>i. 0))\<lparr>poll_ret := \<lparr>ret = -1, err = 9\<rparr>\<rparr>)
          (scenario_transport HFP_CODEC_CVSD 8)
    of Fail s' \<Rightarrow> calls s' = [Call_error ''SCO poll error'']
     | _ \<Rightarrow> False)"
  by (simp add: sco_eval)

end
